theory Spec2Isabelle
  imports Main "HOL-Library.Char_ord" "HOL-Library.List_Lexorder" "HOL-Library.Product_Lexorder"
begin

section \<open>Text: Python's \<open>str\<close> operations used by the parser\<close>

text \<open>
  A page text is a \<open>string\<close>. A \<open>char\<close> stands for the code point of the same number, so the
  model covers the texts whose code points are below 256 (ASCII and Latin-1). On that range
  the tables below are those of Python 3: \<open>str.isspace\<close>, \<open>str.lower\<close>, \<open>str.upper\<close>, and the
  classes \<open>\s\<close> and \<open>\d\<close> of the module \<open>re\<close> on \<open>str\<close> patterns.
\<close>

definition newline :: char where
  "newline = CHR 0x0A"

text \<open>\<open>str.isspace\<close> and \<open>\s\<close>: tab, LF, VT, FF, CR, the separators 0x1C to 0x1F, space, NEL, NBSP.\<close>

definition is_space :: "char \<Rightarrow> bool" where
  "is_space c = (c \<in> set [CHR 0x09, CHR 0x0A, CHR 0x0B, CHR 0x0C, CHR 0x0D,
     CHR 0x1C, CHR 0x1D, CHR 0x1E, CHR 0x1F, CHR 0x20, CHR 0x85, CHR 0xA0])"

text \<open>\<open>\d\<close> and the digits \<open>int\<close> and \<open>Decimal\<close> read: below code point 256 only 0 to 9.\<close>

definition is_digit :: "char \<Rightarrow> bool" where
  "is_digit c = (c \<in> set ''0123456789'')"

definition upper_letters :: string where
  "upper_letters = ''ABCDEFGHIJKLMNOPQRSTUVWXYZ'' @
     [CHR 0xC0, CHR 0xC1, CHR 0xC2, CHR 0xC3, CHR 0xC4, CHR 0xC5, CHR 0xC6, CHR 0xC7, CHR 0xC8,
      CHR 0xC9, CHR 0xCA, CHR 0xCB, CHR 0xCC, CHR 0xCD, CHR 0xCE, CHR 0xCF, CHR 0xD0, CHR 0xD1,
      CHR 0xD2, CHR 0xD3, CHR 0xD4, CHR 0xD5, CHR 0xD6, CHR 0xD8, CHR 0xD9, CHR 0xDA, CHR 0xDB,
      CHR 0xDC, CHR 0xDD, CHR 0xDE]"

definition lower_letters :: string where
  "lower_letters = ''abcdefghijklmnopqrstuvwxyz'' @
     [CHR 0xE0, CHR 0xE1, CHR 0xE2, CHR 0xE3, CHR 0xE4, CHR 0xE5, CHR 0xE6, CHR 0xE7, CHR 0xE8,
      CHR 0xE9, CHR 0xEA, CHR 0xEB, CHR 0xEC, CHR 0xED, CHR 0xEE, CHR 0xEF, CHR 0xF0, CHR 0xF1,
      CHR 0xF2, CHR 0xF3, CHR 0xF4, CHR 0xF5, CHR 0xF6, CHR 0xF8, CHR 0xF9, CHR 0xFA, CHR 0xFB,
      CHR 0xFC, CHR 0xFD, CHR 0xFE]"

fun translate :: "string \<Rightarrow> string \<Rightarrow> char \<Rightarrow> char" where
  "translate (a # as) (b # bs) c = (if c = a then b else translate as bs c)"
| "translate _ _ c = c"

definition char_lower :: "char \<Rightarrow> char" where
  "char_lower c = translate upper_letters lower_letters c"

definition lower :: "string \<Rightarrow> string" where
  "lower s = map char_lower s"

text \<open>
  \<open>str.upper\<close>: the sharp s (0xDF) becomes \<open>SS\<close>. The micro sign (0xB5) and the y with
  diaeresis (0xFF) have capitals above code point 255; they are kept, which no test of
  this program can tell apart, since \<open>upper\<close> is only searched for ASCII keywords.
\<close>

definition char_upper :: "char \<Rightarrow> string" where
  "char_upper c = (if c = CHR 0xDF then ''SS'' else [translate lower_letters upper_letters c])"

definition upper :: "string \<Rightarrow> string" where
  "upper s = concat (map char_upper s)"

text \<open>\<open>str.strip()\<close>: whitespace removed at both ends.\<close>

definition strip_by :: "(char \<Rightarrow> bool) \<Rightarrow> string \<Rightarrow> string" where
  "strip_by p s = rev (dropWhile p (rev (dropWhile p s)))"

definition strip :: "string \<Rightarrow> string" where
  "strip s = strip_by is_space s"

text \<open>\<open>s[a:b]\<close> for offsets \<open>0 \<le> a\<close>, \<open>0 \<le> b\<close>: empty when \<open>b \<le> a\<close>, clipped at the end of \<open>s\<close>.\<close>

definition slice :: "string \<Rightarrow> nat \<Rightarrow> nat \<Rightarrow> string" where
  "slice s a b = take (b - a) (drop a s)"

text \<open>\<open>s.split(d)\<close> for a one-character separator: never an empty list.\<close>

fun split_on :: "char \<Rightarrow> string \<Rightarrow> string list" where
  "split_on d [] = [[]]"
| "split_on d (c # cs) =
     (if c = d then [] # split_on d cs
      else (case split_on d cs of [] \<Rightarrow> [[c]] | w # ws \<Rightarrow> (c # w) # ws))"

fun starts_with :: "string \<Rightarrow> string \<Rightarrow> bool" where
  "starts_with [] s = True"
| "starts_with (k # ks) [] = False"
| "starts_with (k # ks) (c # cs) = (k = c \<and> starts_with ks cs)"

text \<open>\<open>k in s\<close>: \<open>k\<close> is a substring of \<open>s\<close>.\<close>

fun str_in :: "string \<Rightarrow> string \<Rightarrow> bool" where
  "str_in k [] = (k = [])"
| "str_in k (c # cs) = (starts_with k (c # cs) \<or> str_in k cs)"

text \<open>\<open>s.replace(d, "")\<close> for a one-character \<open>d\<close>.\<close>

definition remove_char :: "char \<Rightarrow> string \<Rightarrow> string" where
  "remove_char d s = filter (\<lambda>c. c \<noteq> d) s"

section \<open>Errors\<close>

text \<open>
  The exceptions the program can raise. \<open>ValidationError\<close> is pydantic's, a subclass of
  \<open>ValueError\<close>: an \<open>except ValueError\<close> clause catches it.
\<close>

datatype error =
    ValueError | ValidationError | InvalidOperation | OverflowError | FileNotFoundError
  | RuntimeError | IndexError | TypeError

definition is_ValueError :: "error \<Rightarrow> bool" where
  "is_ValueError e = (e = ValueError \<or> e = ValidationError)"

section \<open>Regular expressions: Python's backtracking matcher\<close>

text \<open>
  The patterns of the program use literals, the classes \<open>\d\<close>, \<open>\s\<close>, \<open>.\<close> and \<open>[\d,]\<close>,
  repetition of a single character or class (greedy or lazy), sequence, alternation, groups
  and the anchors \<open>^\<close> and \<open>$\<close>. \<open>rmatch\<close> lists every way the pattern matches at a position,
  in the order the backtracking matcher of \<open>re\<close> tries them: the left alternative first, the
  longest repetition first when greedy and the shortest first when lazy. The match \<open>re\<close>
  reports is the head of that list.
\<close>

datatype atom = Lit char | Digit | Space | Dot | DigitComma

text \<open>The flag \<open>ic\<close> is \<open>re.IGNORECASE\<close>.\<close>

fun atom_match :: "bool \<Rightarrow> atom \<Rightarrow> char \<Rightarrow> bool" where
  "atom_match ic (Lit a) c = (if ic then char_lower c = char_lower a else c = a)"
| "atom_match ic Digit c = is_digit c"
| "atom_match ic Space c = is_space c"
| "atom_match ic Dot c = (c \<noteq> newline)"
| "atom_match ic DigitComma c = (is_digit c \<or> c = CHR '','')"

text \<open>\<open>Rep a lo hi greedy\<close> is \<open>a{lo,hi}\<close> (no upper bound when \<open>hi = None\<close>), lazy when \<open>\<not> greedy\<close>.\<close>

datatype regex =
    Atom atom
  | Rep atom nat "nat option" bool
  | Seq regex regex
  | Alt regex regex
  | Grp nat regex
  | Eps
  | Bol
  | Eol

type_synonym groups = "(nat \<times> string) list"

text \<open>Every split of \<open>s\<close> after 0, 1, 2, ... leading characters that all satisfy \<open>p\<close>.\<close>

fun runs :: "(char \<Rightarrow> bool) \<Rightarrow> nat \<Rightarrow> string \<Rightarrow> (nat \<times> string) list" where
  "runs p pos [] = [(pos, [])]"
| "runs p pos (c # cs) = (pos, c # cs) # (if p c then runs p (Suc pos) cs else [])"

definition rep_choices ::
  "(char \<Rightarrow> bool) \<Rightarrow> nat \<Rightarrow> nat option \<Rightarrow> bool \<Rightarrow> nat \<Rightarrow> string \<Rightarrow> (nat \<times> string) list" where
  "rep_choices p lo hi greedy pos s =
     (let all = drop lo (runs p pos s);
          allowed = (case hi of None \<Rightarrow> all | Some h \<Rightarrow> take (Suc h - lo) all)
      in if greedy then rev allowed else allowed)"

fun rmatch :: "bool \<Rightarrow> regex \<Rightarrow> groups \<Rightarrow> nat \<Rightarrow> string \<Rightarrow> (groups \<times> nat \<times> string) list" where
  "rmatch ic (Atom a) g pos s =
     (case s of [] \<Rightarrow> [] | c # cs \<Rightarrow> if atom_match ic a c then [(g, Suc pos, cs)] else [])"
| "rmatch ic (Rep a lo hi greedy) g pos s =
     map (\<lambda>(p, r). (g, p, r)) (rep_choices (atom_match ic a) lo hi greedy pos s)"
| "rmatch ic (Seq r1 r2) g pos s =
     concat (map (\<lambda>(g', p', s'). rmatch ic r2 g' p' s') (rmatch ic r1 g pos s))"
| "rmatch ic (Alt r1 r2) g pos s = rmatch ic r1 g pos s @ rmatch ic r2 g pos s"
| "rmatch ic (Grp n r) g pos s =
     map (\<lambda>(g', p', s'). ((n, take (p' - pos) s) # g', p', s')) (rmatch ic r g pos s)"
| "rmatch ic Eps g pos s = [(g, pos, s)]"
| "rmatch ic Bol g pos s = (if pos = 0 then [(g, pos, s)] else [])"
| "rmatch ic Eol g pos s = (if s = [] \<or> s = [newline] then [(g, pos, s)] else [])"

text \<open>A match object: \<open>start()\<close>, \<open>end()\<close> and the groups.\<close>

type_synonym re_match = "nat \<times> nat \<times> groups"

definition m_start :: "re_match \<Rightarrow> nat" where
  "m_start m = fst m"

definition m_end :: "re_match \<Rightarrow> nat" where
  "m_end m = fst (snd m)"

text \<open>
  \<open>m.group(n)\<close>. Every group of every pattern below takes part in every match of its
  pattern, so the value Python gives an unmatched group is never read.
\<close>

definition group :: "re_match \<Rightarrow> nat \<Rightarrow> string" where
  "group m n = (case map_of (snd (snd m)) n of None \<Rightarrow> [] | Some s \<Rightarrow> s)"

text \<open>\<open>re.match\<close>: at the start of the string only.\<close>

definition re_match :: "bool \<Rightarrow> regex \<Rightarrow> string \<Rightarrow> re_match option" where
  "re_match ic r s = (case rmatch ic r [] 0 s of [] \<Rightarrow> None | (g, e, _) # _ \<Rightarrow> Some (0, e, g))"

text \<open>\<open>re.search\<close>: the leftmost position where the pattern matches.\<close>

fun search_from :: "bool \<Rightarrow> regex \<Rightarrow> nat \<Rightarrow> string \<Rightarrow> re_match option" where
  "search_from ic r pos [] =
     (case rmatch ic r [] pos [] of [] \<Rightarrow> None | (g, e, _) # _ \<Rightarrow> Some (pos, e, g))"
| "search_from ic r pos (c # cs) =
     (case rmatch ic r [] pos (c # cs) of
        [] \<Rightarrow> search_from ic r (Suc pos) cs
      | (g, e, _) # _ \<Rightarrow> Some (pos, e, g))"

definition re_search :: "bool \<Rightarrow> regex \<Rightarrow> string \<Rightarrow> re_match option" where
  "re_search ic r s = search_from ic r 0 s"

text \<open>
  \<open>re.finditer\<close>: the matches from left to right, each search resuming where the last
  match ended (\<open>skip\<close> counts the characters still inside it). The patterns iterated by
  this program never match the empty string.
\<close>

fun finditer_from :: "bool \<Rightarrow> regex \<Rightarrow> nat \<Rightarrow> nat \<Rightarrow> string \<Rightarrow> re_match list" where
  "finditer_from ic r skip pos [] =
     (if skip = 0 then
        (case rmatch ic r [] pos [] of [] \<Rightarrow> [] | (g, e, _) # _ \<Rightarrow> [(pos, e, g)])
      else [])"
| "finditer_from ic r skip pos (c # cs) =
     (if skip = 0 then
        (case rmatch ic r [] pos (c # cs) of
           [] \<Rightarrow> finditer_from ic r 0 (Suc pos) cs
         | (g, e, _) # _ \<Rightarrow> (pos, e, g) # finditer_from ic r (e - Suc pos) (Suc pos) cs)
      else finditer_from ic r (skip - 1) (Suc pos) cs)"

definition re_finditer :: "bool \<Rightarrow> regex \<Rightarrow> string \<Rightarrow> re_match list" where
  "re_finditer ic r s = finditer_from ic r 0 0 s"

subsection \<open>Writing patterns\<close>

fun lit :: "string \<Rightarrow> regex" where
  "lit [] = Eps"
| "lit (c # cs) = Seq (Atom (Lit c)) (lit cs)"

fun seqs :: "regex list \<Rightarrow> regex" where
  "seqs [] = Eps"
| "seqs (r # rs) = Seq r (seqs rs)"

fun alts :: "regex \<Rightarrow> regex list \<Rightarrow> regex" where
  "alts r [] = r"
| "alts r (r' # rs) = Alt r (alts r' rs)"

definition star :: "atom \<Rightarrow> regex" where
  "star a = Rep a 0 None True"

definition plus :: "atom \<Rightarrow> regex" where
  "plus a = Rep a 1 None True"

definition lazy_plus :: "atom \<Rightarrow> regex" where
  "lazy_plus a = Rep a 1 None False"

definition opt :: "atom \<Rightarrow> regex" where
  "opt a = Rep a 0 (Some 1) True"

definition times :: "atom \<Rightarrow> nat \<Rightarrow> regex" where
  "times a n = Rep a n (Some n) True"

text \<open>\<open>\s*\<close> and \<open>\s+\<close>.\<close>

definition ws0 :: regex where
  "ws0 = star Space"

definition ws1 :: regex where
  "ws1 = plus Space"

section \<open>Numbers and dates\<close>

text \<open>The value of a digit, and of a run of digits read from the left.\<close>

definition digit_val :: "char \<Rightarrow> int" where
  "digit_val c =
     (case map_of (zip ''0123456789'' [0, 1, 2, 3, 4, 5, 6, 7, 8, 9]) c of
        None \<Rightarrow> 0
      | Some v \<Rightarrow> v)"

fun digits_val :: "int \<Rightarrow> string \<Rightarrow> int" where
  "digits_val acc [] = acc"
| "digits_val acc (c # cs) = digits_val (acc * 10 + digit_val c) cs"

definition split_sign :: "string \<Rightarrow> bool \<times> string" where
  "split_sign s =
     (case s of [] \<Rightarrow> (False, [])
      | c # cs \<Rightarrow> if c = CHR ''-'' then (True, cs) else if c = CHR ''+'' then (False, cs)
                 else (False, s))"

text \<open>Digits, with single underscores allowed between two digits.\<close>

fun valid_int_body :: "string \<Rightarrow> bool" where
  "valid_int_body [] = False"
| "valid_int_body [c] = is_digit c"
| "valid_int_body (c # d # cs) =
     (is_digit c \<and> (if d = CHR ''_'' then valid_int_body cs else valid_int_body (d # cs)))"

text \<open>The whitespace \<open>int\<close> accepts around a literal: not the separators 0x1C to 0x1F.\<close>

definition is_int_space :: "char \<Rightarrow> bool" where
  "is_int_space c = (c \<in> set [CHR 0x09, CHR 0x0A, CHR 0x0B, CHR 0x0C, CHR 0x0D, CHR 0x20,
     CHR 0x85, CHR 0xA0])"

text \<open>
  \<open>int(s)\<close> on a \<open>str\<close>: surrounding whitespace and a sign are accepted; anything that is
  not a decimal literal raises \<open>ValueError\<close>, and so does a literal of more than 4300 digits
  (the interpreter's default limit for one conversion, which counts the digits only).
\<close>

definition py_int :: "string \<Rightarrow> error + int" where
  "py_int s =
     (let (neg, body) = split_sign (strip_by is_int_space s);
          digits = remove_char (CHR ''_'') body
      in if valid_int_body body \<and> int (length digits) \<le> 4300
         then (let n = digits_val 0 digits in Inr (if neg then - n else n))
         else Inl ValueError)"

text \<open>
  \<open>decimal.Decimal\<close>: a finite value is sign, coefficient and exponent (the number
  \<open>\<plusminus> coefficient * 10 ^ exponent\<close>, kept exactly; the coefficient is never negative); the
  special values are the infinities and the (quiet or signalling) NaNs with their payload.
\<close>

datatype decimal = Finite bool int int | Infinity bool | NaN bool bool int

text \<open>The exponent part after \<open>E\<close>: an optional sign and at least one digit.\<close>

definition decimal_exponent :: "string \<Rightarrow> int option" where
  "decimal_exponent s =
     (let (neg, body) = split_sign s in
      if body \<noteq> [] \<and> list_all is_digit body
      then (let n = digits_val 0 body in Some (if neg then - n else n))
      else None)"

text \<open>
  The numeric part: digits with an optional fraction, at least one digit in all, and an
  optional exponent. The result is the coefficient and the exponent. The C implementation
  keeps the exponent between \<open>MIN_ETINY\<close> and, counted at the first significant digit of
  the coefficient, \<open>MAX_EMAX\<close>; a written exponent that leaves this range is refused.
  (Without an exponent part the range cannot be left by a string of fewer than \<open>10 ^ 18\<close>
  characters.)
\<close>

definition MAX_EMAX :: int where
  "MAX_EMAX = 999999999999999999"

definition MIN_ETINY :: int where
  "MIN_ETINY = - 1999999999999999997"

definition coefficient_digits :: "string \<Rightarrow> nat" where
  "coefficient_digits ds = max 1 (length (dropWhile (\<lambda>c. c = CHR ''0'') ds))"

definition exponent_in_range :: "string \<Rightarrow> int \<Rightarrow> bool" where
  "exponent_in_range ds x = (MIN_ETINY \<le> x \<and> x + int (coefficient_digits ds) - 1 \<le> MAX_EMAX)"

definition decimal_numeric :: "string \<Rightarrow> (int \<times> int) option" where
  "decimal_numeric u =
     (let ip = takeWhile is_digit u;
          r1 = dropWhile is_digit u;
          (fp, r2) = (case r1 of [] \<Rightarrow> ([], [])
                      | c # r \<Rightarrow> if c = CHR ''.'' then (takeWhile is_digit r, dropWhile is_digit r)
                                else ([], r1))
      in if ip = [] \<and> fp = [] then None
         else (case r2 of
                 [] \<Rightarrow> Some (digits_val 0 (ip @ fp), - int (length fp))
               | e # r3 \<Rightarrow>
                   if char_lower e = CHR ''e''
                   then (case decimal_exponent r3 of
                           None \<Rightarrow> None
                         | Some x \<Rightarrow>
                             if exponent_in_range (ip @ fp) (x - int (length fp))
                             then Some (digits_val 0 (ip @ fp), x - int (length fp))
                             else None)
                   else None))"

definition decimal_special :: "bool \<Rightarrow> string \<Rightarrow> decimal option" where
  "decimal_special neg u =
     (let l = lower u in
      if l = ''inf'' \<or> l = ''infinity'' then Some (Infinity neg)
      else if starts_with ''nan'' l \<and> list_all is_digit (drop 3 l)
      then Some (NaN neg False (digits_val 0 (drop 3 l)))
      else if starts_with ''snan'' l \<and> list_all is_digit (drop 4 l)
      then Some (NaN neg True (digits_val 0 (drop 4 l)))
      else None)"

text \<open>
  \<open>Decimal(s)\<close> on a \<open>str\<close>, in the default context: surrounding whitespace and
  underscores are dropped; the rest is an optional sign followed by a number, an infinity
  or a NaN; anything else raises \<open>InvalidOperation\<close>.
\<close>

definition Decimal :: "string \<Rightarrow> error + decimal" where
  "Decimal s =
     (let (neg, u) = split_sign (remove_char (CHR ''_'') (strip s)) in
      case decimal_numeric u of
        Some (c, e) \<Rightarrow> Inr (Finite neg c e)
      | None \<Rightarrow> (case decimal_special neg u of Some d \<Rightarrow> Inr d | None \<Rightarrow> Inl InvalidOperation))"

text \<open>\<open>datetime.date\<close>: a proleptic Gregorian date with a year from 1 to 9999.\<close>

record date =
  year :: int
  month :: int
  day :: int

definition is_leap :: "int \<Rightarrow> bool" where
  "is_leap y = (y mod 4 = 0 \<and> (y mod 100 \<noteq> 0 \<or> y mod 400 = 0))"

definition days_in_month :: "int \<Rightarrow> int \<Rightarrow> int" where
  "days_in_month y m =
     (if m = 2 then (if is_leap y then 29 else 28)
      else if m = 4 \<or> m = 6 \<or> m = 9 \<or> m = 11 then 30 else 31)"

text \<open>The integers a C \<open>int\<close> holds: the arguments of \<open>date\<close> are converted to one.\<close>

definition c_int :: "int \<Rightarrow> bool" where
  "c_int n = (- 2147483648 \<le> n \<and> n \<le> 2147483647)"

text \<open>
  The constructor \<open>date(y, m, d)\<close>: \<open>OverflowError\<close> when an argument does not fit a C
  \<open>int\<close>, \<open>ValueError\<close> when a field is out of range.
\<close>

definition make_date :: "int \<Rightarrow> int \<Rightarrow> int \<Rightarrow> error + date" where
  "make_date y m d =
     (if \<not> (c_int y \<and> c_int m \<and> c_int d) then Inl OverflowError
      else if 1 \<le> y \<and> y \<le> 9999 \<and> 1 \<le> m \<and> m \<le> 12 \<and> 1 \<le> d \<and> d \<le> days_in_month y m
      then Inr \<lparr>year = y, month = m, day = d\<rparr>
      else Inl ValueError)"

section \<open>models.py\<close>

datatype TransactionType = CHECK | WITHDRAWAL | DEPOSIT

text \<open>The enum's values: \<open>TransactionType\<close> is a \<open>str\<close> enum.\<close>

fun type_value :: "TransactionType \<Rightarrow> string" where
  "type_value CHECK = ''check''"
| "type_value WITHDRAWAL = ''withdrawal''"
| "type_value DEPOSIT = ''deposit''"

text \<open>
  The lender fields of \<open>Transaction\<close> keep their defaults in every record this part of the
  program creates and are left out.
\<close>

record transaction =
  date :: date
  description :: string
  amount :: decimal
  transaction_type :: TransactionType
  check_number :: "int option"

text \<open>\<open>Field(ge=0)\<close>: the validation of \<open>amount\<close>; a value that is not finite is refused.\<close>

fun amount_ge0 :: "decimal \<Rightarrow> bool" where
  "amount_ge0 (Finite neg c e) = (0 \<le> (if neg then - c else c))"
| "amount_ge0 _ = False"

text \<open>The constructor \<open>Transaction(...)\<close>: pydantic validates the fields.\<close>

definition Transaction ::
  "date \<Rightarrow> string \<Rightarrow> decimal \<Rightarrow> TransactionType \<Rightarrow> int option \<Rightarrow> error + transaction" where
  "Transaction d desc a ty cn =
     (if amount_ge0 a
      then Inr \<lparr>date = d, description = desc, amount = a, transaction_type = ty, check_number = cn\<rparr>
      else Inl ValidationError)"

record BankStatement =
  bank_name :: string
  account_number :: "string option"
  statement_period_start :: "date option"
  statement_period_end :: "date option"
  transactions :: "transaction list"

section \<open>banks/truist/table\_parsers.py\<close>

definition parse_amount :: "string \<Rightarrow> error + decimal" where
  "parse_amount amount_str = Decimal (strip (remove_char (CHR '','') amount_str))"

text \<open>\<open>month, day = date_str.split("/")\<close> raises \<open>ValueError\<close> unless there are two parts.\<close>

definition parse_date :: "string \<Rightarrow> int \<Rightarrow> error + date" where
  "parse_date date_str yr =
     (case split_on (CHR ''/'') date_str of
        [m, d] \<Rightarrow>
          (case py_int m of
             Inl e \<Rightarrow> Inl e
           | Inr mi \<Rightarrow> (case py_int d of Inl e \<Rightarrow> Inl e | Inr di \<Rightarrow> make_date yr mi di))
      | _ \<Rightarrow> Inl ValueError)"

text \<open>\<open>except (ValueError, InvalidOperation)\<close>.\<close>

definition caught :: "error \<Rightarrow> bool" where
  "caught e = (is_ValueError e \<or> e = InvalidOperation)"

text \<open>The patterns shared by the functions of this module.\<close>

definition MM_DD :: regex where
  "MM_DD = seqs [times Digit 2, Atom (Lit (CHR ''/'')), times Digit 2]"

definition AMOUNT :: regex where
  "AMOUNT = seqs [plus DigitComma, Atom (Lit (CHR ''.'')), times Digit 2]"

definition TABLE_HEADER :: regex where
  "TABLE_HEADER = seqs [lit ''DATE'', ws1, lit ''DESCRIPTION'', ws1, lit ''AMOUNT'']"

subsection \<open>extract\_checks\_from\_page\<close>

definition CHECKS_HEADER :: regex where
  "CHECKS_HEADER = seqs [lit ''Checks'', ws0, Atom (Lit newline)]"

definition CHECKS_END :: regex where
  "CHECKS_END = Grp 1 (alts (seqs [lit ''Total'', ws0, lit ''checks''])
     [seqs [Atom (Lit (CHR ''*'')), ws0, lit ''indicates''],
      seqs [lit ''Other'', ws0, lit ''withdraw''],
      lit ''Otherwithdraw'',
      TABLE_HEADER])"

definition CHECK_PATTERN :: regex where
  "CHECK_PATTERN = seqs [Grp 1 MM_DD, ws1, opt (Lit (CHR ''*'')), Grp 2 (plus Digit), ws1, Grp 3 AMOUNT]"

text \<open>The body of the \<open>try\<close> for one match: the arguments in the order Python evaluates them.\<close>

definition check_of_match :: "int \<Rightarrow> re_match \<Rightarrow> error + transaction" where
  "check_of_match yr m =
     (let date_str = group m 1; check_num = group m 2; amount_str = group m 3 in
      case parse_date date_str yr of
        Inl e \<Rightarrow> Inl e
      | Inr d \<Rightarrow>
          (case parse_amount amount_str of
             Inl e \<Rightarrow> Inl e
           | Inr a \<Rightarrow>
               (case py_int check_num of
                  Inl e \<Rightarrow> Inl e
                | Inr n \<Rightarrow> Transaction d (''Check #'' @ check_num) a CHECK (Some n))))"

text \<open>The loop over the matches: an error the \<open>except\<close> clause names skips the match, any other leaves the function.\<close>

fun checks_loop :: "int \<Rightarrow> re_match list \<Rightarrow> transaction list \<Rightarrow> error + transaction list" where
  "checks_loop yr [] acc = Inr acc"
| "checks_loop yr (m # ms) acc =
     (case check_of_match yr m of
        Inr t \<Rightarrow> checks_loop yr ms (acc @ [t])
      | Inl e \<Rightarrow> if caught e then checks_loop yr ms acc else Inl e)"

definition extract_checks_from_page :: "string \<Rightarrow> int \<Rightarrow> error + transaction list" where
  "extract_checks_from_page text yr =
     (case re_search True CHECKS_HEADER text of
        None \<Rightarrow> Inr []
      | Some checks_match \<Rightarrow>
          (let checks_start = m_end checks_match;
               checks_end = (case re_search True CHECKS_END (drop checks_start text) of
                               Some next_section \<Rightarrow> checks_start + m_start next_section
                             | None \<Rightarrow> length text);
               checks_text = slice text checks_start checks_end
           in checks_loop yr (re_finditer False CHECK_PATTERN checks_text) []))"

subsection \<open>\_extract\_transactions\_from\_text\<close>

definition LINE_PATTERN :: regex where
  "LINE_PATTERN = seqs [Bol, Grp 1 MM_DD, ws1, Grp 2 (lazy_plus Dot), ws1, Grp 3 AMOUNT, ws0, Eol]"

text \<open>The header and footer lines the loop skips before it tries the pattern.\<close>

definition skipped_line :: "string \<Rightarrow> bool" where
  "skipped_line line =
     (let line_upper = upper line in
      (str_in ''DESCRIPTION'' line_upper \<and> str_in ''AMOUNT'' line_upper)
      \<or> (str_in ''DATE'' line_upper \<and> str_in ''CHECK'' line_upper)
      \<or> str_in ''CONTINUED'' line_upper
      \<or> (str_in ''PAGE'' line_upper \<and> str_in ''OF'' line_upper))"

definition transaction_of_match ::
  "int \<Rightarrow> TransactionType \<Rightarrow> string \<Rightarrow> string \<Rightarrow> string \<Rightarrow> error + transaction" where
  "transaction_of_match yr ty date_str desc amount_str =
     (case parse_date date_str yr of
        Inl e \<Rightarrow> Inl e
      | Inr d \<Rightarrow>
          (case parse_amount amount_str of
             Inl e \<Rightarrow> Inl e
           | Inr a \<Rightarrow> Transaction d desc a ty None))"

fun lines_loop ::
  "int \<Rightarrow> TransactionType \<Rightarrow> string list \<Rightarrow> transaction list \<Rightarrow> error + transaction list" where
  "lines_loop yr ty [] acc = Inr acc"
| "lines_loop yr ty (line # ls) acc =
     (if skipped_line line then lines_loop yr ty ls acc
      else (case re_match False LINE_PATTERN (strip line) of
              None \<Rightarrow> lines_loop yr ty ls acc
            | Some m \<Rightarrow>
                (let desc = strip (group m 2) in
                 if desc = [] \<or> length desc < 3 then lines_loop yr ty ls acc
                 else (case transaction_of_match yr ty (group m 1) desc (group m 3) of
                         Inr t \<Rightarrow> lines_loop yr ty ls (acc @ [t])
                       | Inl e \<Rightarrow> if caught e then lines_loop yr ty ls acc else Inl e))))"

definition extract_transactions_from_text ::
  "string \<Rightarrow> int \<Rightarrow> TransactionType \<Rightarrow> error + transaction list" where
  "extract_transactions_from_text text yr ty = lines_loop yr ty (split_on newline text) []"

subsection \<open>\_find\_section\_markers\<close>

type_synonym markers = "string \<rightharpoonup> nat"

definition WITHDRAW_HEADER :: regex where
  "WITHDRAW_HEADER = Grp 1 (Alt
     (seqs [lit ''Other'', ws0, lit ''withdrawal'', opt (Lit (CHR ''s'')), opt (Lit (CHR '','')), ws0,
            lit ''debits''])
     (seqs [lit ''Otherwithdrawal'', opt (Lit (CHR ''s'')), opt (Lit (CHR '','')), lit ''debits'']))"

definition DEPOSIT_HEADER :: regex where
  "DEPOSIT_HEADER = Grp 1 (Alt
     (seqs [lit ''Deposits'', opt (Lit (CHR '','')), ws0, lit ''credits'', ws0, lit ''and'', ws0,
            lit ''interest''])
     (seqs [lit ''Deposits'', opt (Lit (CHR '','')), lit ''creditsandinterest'']))"

definition TOTAL_WITHDRAW :: regex where
  "TOTAL_WITHDRAW = Alt (seqs [lit ''Total'', ws0, lit ''other'', ws0, lit ''withdrawals''])
     (lit ''Totalotherwithdrawals'')"

definition TOTAL_DEPOSIT :: regex where
  "TOTAL_DEPOSIT = Alt (seqs [lit ''Total'', ws0, lit ''deposits'']) (lit ''Totaldeposits'')"

text \<open>
  One of the two blocks of the loop body: the section header \<open>pat\<close> is looked for in the
  100 characters before the table header \<open>th\<close>, and recorded (once) unless \<open>total\<close> stands in
  the 10 characters before it.
\<close>

definition mark_section ::
  "regex \<Rightarrow> string \<Rightarrow> string \<Rightarrow> string \<Rightarrow> re_match \<Rightarrow> markers \<Rightarrow> markers" where
  "mark_section pat header_key table_key text th mk =
     (let prefix = slice text (m_start th - 100) (m_start th) in
      case re_search True pat prefix of
        None \<Rightarrow> mk
      | Some hm \<Rightarrow>
          if mk header_key \<noteq> None then mk
          else (let match_prefix = slice prefix (m_start hm - 10) (m_start hm) in
                if str_in ''total'' (lower match_prefix) then mk
                else mk(header_key \<mapsto> m_start th - length prefix + m_start hm,
                        table_key \<mapsto> m_end th)))"

fun headers_loop :: "string \<Rightarrow> re_match list \<Rightarrow> markers \<Rightarrow> markers" where
  "headers_loop text [] mk = mk"
| "headers_loop text (th # ths) mk =
     headers_loop text ths
       (mark_section DEPOSIT_HEADER ''deposit_header'' ''deposit_table'' text th
          (mark_section WITHDRAW_HEADER ''withdraw_header'' ''withdraw_table'' text th mk))"

definition find_section_markers :: "string \<Rightarrow> markers" where
  "find_section_markers text =
     (let mk0 = headers_loop text (re_finditer True TABLE_HEADER text) Map.empty;
          mk1 = (case re_search True TOTAL_WITHDRAW text of
                   Some total_withdraw \<Rightarrow> mk0(''total_withdraw'' \<mapsto> m_start total_withdraw)
                 | None \<Rightarrow> mk0)
      in case re_search True TOTAL_DEPOSIT text of
           Some total_deposit \<Rightarrow> mk1(''total_deposit'' \<mapsto> m_start total_deposit)
         | None \<Rightarrow> mk1)"

subsection \<open>extract\_withdrawals\_from\_page and extract\_deposits\_from\_page\<close>

definition is_continuation :: "string \<Rightarrow> bool" where
  "is_continuation text = str_in ''(continued)'' (lower (take 200 text))"

definition deposit_indicators :: "string list" where
  "deposit_indicators = [''DEPOSIT'', ''EDI PYMNTS'', ''PAYABLES'', ''INCOMING WIRE'']"

definition withdrawal_indicators :: "string list" where
  "withdrawal_indicators = [''DEBIT'', ''ACH CORP DEBIT'', ''WIRE REF#'', ''ZELLE'']"

text \<open>\<open>any(kw in content.upper() for kw in kws)\<close>.\<close>

definition any_keyword :: "string list \<Rightarrow> string \<Rightarrow> bool" where
  "any_keyword kws content = list_ex (\<lambda>kw. str_in kw (upper content)) kws"

text \<open>The 500 characters after a table header, where the keywords are looked for.\<close>

definition window :: "string \<Rightarrow> re_match \<Rightarrow> string" where
  "window text table_header = slice text (m_end table_header) (m_end table_header + 500)"

definition PAGE_MARKER :: regex where
  "PAGE_MARKER = Alt (seqs [lit ''continued'', ws0, Atom (Lit newline)])
     (seqs [Atom (Lit (CHR 0xA7)), ws0, lit ''PAGE''])"

definition END_MARKER :: regex where
  "END_MARKER = Alt (lit ''Important:'') (seqs [Atom (Lit (CHR 0xA7)), ws0, lit ''PAGE''])"

text \<open>
  The offsets \<open>start\<close> and \<open>end\<close> the function settles on before it slices the text;
  \<open>None\<close> where it returns the empty list because \<open>start\<close> is \<open>None\<close>.
\<close>

definition withdrawals_span :: "string \<Rightarrow> (nat \<times> nat) option" where
  "withdrawals_span text =
     (let mk = find_section_markers text;
          (st, en) =
            (case mk ''withdraw_table'' of
               Some wt \<Rightarrow> (Some wt, None)
             | None \<Rightarrow>
                 if is_continuation text then
                   (case mk ''total_withdraw'' of
                      Some tw \<Rightarrow>
                        (case re_search True TABLE_HEADER text of
                           Some table_header \<Rightarrow> (Some (m_end table_header), Some tw)
                         | None \<Rightarrow> (None, None))
                    | None \<Rightarrow>
                        if mk ''deposit_header'' = None \<and> mk ''deposit_table'' = None then
                          (case re_search True TABLE_HEADER text of
                             Some table_header \<Rightarrow>
                               (let content = window text table_header;
                                    has_deposits = any_keyword deposit_indicators content;
                                    has_withdrawals = any_keyword withdrawal_indicators content
                                in if has_withdrawals \<and> \<not> has_deposits
                                   then (Some (m_end table_header), None)
                                   else if has_withdrawals \<and> has_deposits
                                   then (Some (m_end table_header), None)
                                   else (None, None))
                           | None \<Rightarrow> (None, None))
                        else (None, None))
                 else (None, None))
      in case st of
           None \<Rightarrow> None
         | Some start \<Rightarrow>
             Some (start,
               (case en of
                  Some e \<Rightarrow> e
                | None \<Rightarrow>
                    (case mk ''deposit_header'' of
                       Some dh \<Rightarrow> dh
                     | None \<Rightarrow>
                         (case mk ''total_withdraw'' of
                            Some tw \<Rightarrow> tw
                          | None \<Rightarrow>
                              (case re_search True PAGE_MARKER (drop start text) of
                                 Some page_marker \<Rightarrow> start + m_start page_marker
                               | None \<Rightarrow> length text))))))"

definition extract_withdrawals_from_page :: "string \<Rightarrow> int \<Rightarrow> error + transaction list" where
  "extract_withdrawals_from_page text yr =
     (case withdrawals_span text of
        None \<Rightarrow> Inr []
      | Some (start, en) \<Rightarrow> extract_transactions_from_text (slice text start en) yr WITHDRAWAL)"

definition deposits_span :: "string \<Rightarrow> (nat \<times> nat) option" where
  "deposits_span text =
     (let mk = find_section_markers text;
          st =
            (case mk ''deposit_table'' of
               Some dt \<Rightarrow> Some dt
             | None \<Rightarrow>
                 if is_continuation text then
                   (case mk ''total_withdraw'' of
                      Some tw \<Rightarrow>
                        (case re_search True TABLE_HEADER (drop tw text) of
                           Some table_header \<Rightarrow> Some (tw + m_end table_header)
                         | None \<Rightarrow> None)
                    | None \<Rightarrow>
                        if mk ''withdraw_header'' = None \<and> mk ''withdraw_table'' = None then
                          (case re_search True TABLE_HEADER text of
                             Some table_header \<Rightarrow>
                               if any_keyword deposit_indicators (window text table_header)
                               then Some (m_end table_header)
                               else None
                           | None \<Rightarrow> None)
                        else None)
                 else None)
      in case st of
           None \<Rightarrow> None
         | Some start \<Rightarrow>
             Some (start,
               (case mk ''total_deposit'' of
                  Some td \<Rightarrow> td
                | None \<Rightarrow>
                    (case re_search True END_MARKER (drop start text) of
                       Some end_marker \<Rightarrow> start + m_start end_marker
                     | None \<Rightarrow> length text))))"

definition extract_deposits_from_page :: "string \<Rightarrow> int \<Rightarrow> error + transaction list" where
  "extract_deposits_from_page text yr =
     (case deposits_span text of
        None \<Rightarrow> Inr []
      | Some (start, en) \<Rightarrow> extract_transactions_from_text (slice text start en) yr DEPOSIT)"

section \<open>banks/truist/page\_classifier.py\<close>

definition TRANSACTION_INDICATORS :: "regex list" where
  "TRANSACTION_INDICATORS =
     [lit ''Checks'',
      seqs [lit ''Other'', ws0, lit ''withdrawals''],
      seqs [lit ''Deposits'', opt (Lit (CHR '','')), ws0, lit ''credits''],
      TABLE_HEADER,
      seqs [lit ''DATE'', ws1, lit ''CHECK'', ws0, Atom (Lit (CHR ''#'')), ws1, lit ''AMOUNT'']]"

definition BOILERPLATE_INDICATORS :: "regex list" where
  "BOILERPLATE_INDICATORS =
     [seqs [lit ''Questions'', opt (Lit (CHR '','')), ws0, lit ''comments'', ws0, lit ''or'', ws0,
            lit ''errors?''],
      seqs [lit ''Electronic'', ws0, lit ''fund'', ws0, lit ''transfers''],
      seqs [lit ''How'', ws0, lit ''to'', ws0, lit ''Reconcile'', ws0, lit ''Your'', ws0, lit ''Account''],
      seqs [lit ''Billing'', ws0, lit ''Rights'', ws0, lit ''Summary''],
      seqs [lit ''Mail-in'', ws0, lit ''deposits'']]"

definition DATE_AMOUNT_PATTERN :: regex where
  "DATE_AMOUNT_PATTERN =
     seqs [MM_DD, ws1, star Dot, plus Digit, Atom (Lit (CHR ''.'')), times Digit 2]"

text \<open>\<open>re.search(pattern, text, re.IGNORECASE)\<close> finds something for one of the patterns.\<close>

definition any_pattern :: "regex list \<Rightarrow> string \<Rightarrow> bool" where
  "any_pattern pats text = list_ex (\<lambda>pattern. re_search True pattern text \<noteq> None) pats"

definition is_transaction_page :: "string \<Rightarrow> bool" where
  "is_transaction_page text =
     (if any_pattern BOILERPLATE_INDICATORS text then False
      else if length (strip text) < 100 then False
      else if any_pattern TRANSACTION_INDICATORS text then True
      else if length (re_finditer False DATE_AMOUNT_PATTERN text) \<ge> 3 then True
      else False)"

text \<open>The dict of page number to classification, in the order it is built and read.\<close>

definition classify_pages :: "string list \<Rightarrow> (nat \<times> bool) list" where
  "classify_pages pages = zip [0..<length pages] (map is_transaction_page pages)"

section \<open>banks/truist/parser.py\<close>

text \<open>
  A document is the list of its pages' texts (\<open>page.extract_text() or ""\<close>); reading the
  PDF itself is outside this program.
\<close>

type_synonym pdf = "string list"


definition FOR_DATE :: regex where
  "FOR_DATE = seqs [lit ''For'', ws0,
     Grp 1 (seqs [times Digit 2, Atom (Lit (CHR ''/'')), times Digit 2, Atom (Lit (CHR ''/'')),
                  Grp 2 (Alt (times Digit 4) (times Digit 2))])]"

definition YEAR_20 :: regex where
  "YEAR_20 = seqs [lit ''20'', times Digit 2]"

definition ACCOUNT :: regex where
  "ACCOUNT = seqs [lit ''CHECKING'', ws0, Grp 1 (plus Digit)]"

text \<open>\<open>m.group()\<close>: the text matched.\<close>

definition m_text :: "string \<Rightarrow> re_match \<Rightarrow> string" where
  "m_text text m = slice text (m_start m) (m_end m)"

text \<open>
  \<open>_extract_metadata\<close>: the values of \<open>_year\<close> and \<open>_account_number\<close> after the call (both
  \<open>None\<close> before it). \<open>today\<close> is \<open>date.today().year\<close>.
\<close>

definition extract_metadata :: "int \<Rightarrow> pdf \<Rightarrow> error + (int option \<times> string option)" where
  "extract_metadata today pages =
     (case pages of
        [] \<Rightarrow> Inr (None, None)
      | text # _ \<Rightarrow>
          (case (case re_search False FOR_DATE text of
                   Some date_match \<Rightarrow>
                     (let year_str = group date_match 2 in
                      case py_int year_str of
                        Inl e \<Rightarrow> Inl e
                      | Inr n \<Rightarrow> Inr (if length year_str = 2 then 2000 + n else n))
                 | None \<Rightarrow>
                     (case re_search False YEAR_20 text of
                        Some year_match \<Rightarrow> py_int (m_text text year_match)
                      | None \<Rightarrow> Inr today)) of
             Inl e \<Rightarrow> Inl e
           | Inr y \<Rightarrow>
               Inr (Some y,
                    (case re_search False ACCOUNT text of
                       Some account_match \<Rightarrow> Some (group account_match 1)
                     | None \<Rightarrow> None))))"

definition MM_DD_YYYY :: regex where
  "MM_DD_YYYY = seqs [times Digit 2, Atom (Lit (CHR ''/'')), times Digit 2, Atom (Lit (CHR ''/'')),
     times Digit 4]"

definition PERIOD_START :: regex where
  "PERIOD_START = seqs [lit ''previous'', ws0, lit ''balance'', ws0, lit ''as'', ws0, lit ''of'', ws0,
     Grp 1 MM_DD_YYYY]"

definition PERIOD_END :: regex where
  "PERIOD_END = seqs [lit ''new'', ws0, lit ''balance'', ws0, lit ''as'', ws0, lit ''of'', ws0,
     Grp 1 MM_DD_YYYY]"

text \<open>
  \<open>parts = s.split("/")\<close> and \<open>date(int(parts[2]), int(parts[0]), int(parts[1]))\<close>, with no
  \<open>try\<close> around it.
\<close>

definition period_date :: "string \<Rightarrow> error + date" where
  "period_date s =
     (case split_on (CHR ''/'') s of
        p0 # p1 # p2 # _ \<Rightarrow>
          (case py_int p2 of
             Inl e \<Rightarrow> Inl e
           | Inr y \<Rightarrow>
               (case py_int p0 of
                  Inl e \<Rightarrow> Inl e
                | Inr m \<Rightarrow> (case py_int p1 of Inl e \<Rightarrow> Inl e | Inr d \<Rightarrow> make_date y m d)))
      | _ \<Rightarrow> Inl IndexError)"

definition extract_statement_period ::
  "pdf \<Rightarrow> int option \<Rightarrow> error + (date option \<times> date option)" where
  "extract_statement_period pages yr =
     (case pages of
        [] \<Rightarrow> Inr (None, None)
      | text # _ \<Rightarrow>
          if yr = None \<or> yr = Some 0 then Inr (None, None)
          else (let start_match = re_search True PERIOD_START text;
                    end_match = re_search True PERIOD_END text
                in case (case start_match of
                           None \<Rightarrow> Inr None
                         | Some sm \<Rightarrow> map_sum id Some (period_date (group sm 1))) of
                     Inl e \<Rightarrow> Inl e
                   | Inr start_date \<Rightarrow>
                       (case (case end_match of
                                None \<Rightarrow> Inr None
                              | Some em \<Rightarrow> map_sum id Some (period_date (group em 1))) of
                          Inl e \<Rightarrow> Inl e
                        | Inr end_date \<Rightarrow> Inr (start_date, end_date))))"

text \<open>One transaction page: checks, then withdrawals, then deposits.\<close>

definition extract_page :: "string \<Rightarrow> int \<Rightarrow> error + transaction list" where
  "extract_page page yr =
     (case extract_checks_from_page page yr of
        Inl e \<Rightarrow> Inl e
      | Inr checks \<Rightarrow>
          (case extract_withdrawals_from_page page yr of
             Inl e \<Rightarrow> Inl e
           | Inr withdrawals \<Rightarrow>
               (case extract_deposits_from_page page yr of
                  Inl e \<Rightarrow> Inl e
                | Inr deposits \<Rightarrow> Inr (checks @ withdrawals @ deposits))))"

text \<open>
  The loop over the classification. \<open>_year\<close> is \<open>None\<close> only when the document has no page,
  and then the loop has nothing to do; a date built from \<open>None\<close> would be a \<open>TypeError\<close>.
\<close>

fun pages_loop ::
  "pdf \<Rightarrow> int option \<Rightarrow> (nat \<times> bool) list \<Rightarrow> transaction list \<Rightarrow> error + transaction list" where
  "pages_loop pages yr [] acc = Inr acc"
| "pages_loop pages yr ((page_num, is_tp) # rest) acc =
     (if \<not> is_tp then pages_loop pages yr rest acc
      else if length pages \<le> page_num then Inl IndexError
      else (case yr of
              None \<Rightarrow> Inl TypeError
            | Some y \<Rightarrow>
                (case extract_page (pages ! page_num) y of
                   Inl e \<Rightarrow> Inl e
                 | Inr txs \<Rightarrow> pages_loop pages yr rest (acc @ txs))))"

text \<open>
  The sort key \<open>(t.date, t.transaction_type.value)\<close>: dates compare as (year, month, day),
  the values as strings, and tuples lexicographically.
\<close>

definition sort_key_of :: "transaction \<Rightarrow> (int \<times> int \<times> int) \<times> string" where
  "sort_key_of t = ((year (date t), month (date t), day (date t)), type_value (transaction_type t))"

text \<open>\<open>TruistParser.parse\<close>; \<open>pdf\<close> is \<open>None\<close> when the parser was not opened.\<close>

definition parse :: "int \<Rightarrow> pdf option \<Rightarrow> error + BankStatement" where
  "parse today pdf =
     (case pdf of
        None \<Rightarrow> Inl RuntimeError
      | Some pages \<Rightarrow>
          (case extract_metadata today pages of
             Inl e \<Rightarrow> Inl e
           | Inr (yr, acct) \<Rightarrow>
               (case extract_statement_period pages yr of
                  Inl e \<Rightarrow> Inl e
                | Inr (start_date, end_date) \<Rightarrow>
                    (case pages_loop pages yr (classify_pages pages) [] of
                       Inl e \<Rightarrow> Inl e
                     | Inr all_transactions \<Rightarrow>
                         Inr \<lparr>bank_name = ''Truist'',
                              account_number = acct,
                              statement_period_start = start_date,
                              statement_period_end = end_date,
                              transactions = sort_key sort_key_of all_transactions\<rparr>))))"

section \<open>banks/detector.py and extractor.py\<close>






section \<open>Vocabulary of the claims and example documents\<close>

text \<open>
  The invariant of a transaction: a check number exactly on the checks, and an amount
  that is not negative.
\<close>

definition well_formed :: "transaction \<Rightarrow> bool" where
  "well_formed t =
     (((check_number t \<noteq> None) = (transaction_type t = CHECK)) \<and> amount_ge0 (amount t))"

text \<open>The position of a category in the declaration of the enum: CHECK, WITHDRAWAL, DEPOSIT.\<close>

fun declared_index :: "TransactionType \<Rightarrow> nat" where
  "declared_index CHECK = 0"
| "declared_index WITHDRAWAL = 1"
| "declared_index DEPOSIT = 2"

definition declared_key :: "transaction \<Rightarrow> (int \<times> int \<times> int) \<times> nat" where
  "declared_key t =
     ((year (date t), month (date t), day (date t)), declared_index (transaction_type t))"

text \<open>
  A signless decimal with exactly two fractional digits, as the specification of
  \<open>parse_amount\<close> words it: digits, a point, two digits (the integer part may be empty,
  which is what is left of \<open>,.45\<close> once the commas are gone).
\<close>

definition signless_two_decimals :: "string \<Rightarrow> bool" where
  "signless_two_decimals r =
     (case dropWhile is_digit r of
        [] \<Rightarrow> False
      | c # fp \<Rightarrow> c = CHR ''.'' \<and> length fp = 2 \<and> list_all is_digit fp)"

text \<open>
  What the line parser owes one line, whatever the other lines are: nothing for a line it
  filters, that does not match the pattern, whose description is shorter than three
  characters or one of whose conversions fails; otherwise the record of the line.
\<close>

definition line_records :: "int \<Rightarrow> TransactionType \<Rightarrow> string \<Rightarrow> transaction list" where
  "line_records yr ty line =
     (if skipped_line line then []
      else (case re_match False LINE_PATTERN (strip line) of
              None \<Rightarrow> []
            | Some m \<Rightarrow>
                if length (strip (group m 2)) < 3 then []
                else (case transaction_of_match yr ty (group m 1) (strip (group m 2)) (group m 3) of
                        Inl e \<Rightarrow> []
                      | Inr t \<Rightarrow> [t])))"

text \<open>
  The matches of the check pattern in the checks block of a page (none without a checks
  header), and what the check extractor owes one of them: its record, or nothing when one
  of its conversions fails.
\<close>

definition check_matches :: "string \<Rightarrow> re_match list" where
  "check_matches text =
     (case re_search True CHECKS_HEADER text of
        None \<Rightarrow> []
      | Some checks_match \<Rightarrow>
          (let checks_start = m_end checks_match;
               checks_end = (case re_search True CHECKS_END (drop checks_start text) of
                               Some next_section \<Rightarrow> checks_start + m_start next_section
                             | None \<Rightarrow> length text)
           in re_finditer False CHECK_PATTERN (slice text checks_start checks_end)))"

definition check_records :: "int \<Rightarrow> re_match \<Rightarrow> transaction list" where
  "check_records yr m = (case check_of_match yr m of Inl e \<Rightarrow> [] | Inr t \<Rightarrow> [t])"

text \<open>
  The words a pattern matches, the words its group \<open>n\<close> can hold, and whether every match
  of the pattern sets group \<open>n\<close>: what the proofs need to know of a matched date.
\<close>

fun lang :: "bool \<Rightarrow> regex \<Rightarrow> string set" where
  "lang ic (Atom a) = {w. \<exists>c. w = [c] \<and> atom_match ic a c}"
| "lang ic (Rep a lo hi greedy) =
     {w. list_all (atom_match ic a) w \<and> lo \<le> length w \<and>
         (case hi of None \<Rightarrow> True | Some h \<Rightarrow> length w \<le> h)}"
| "lang ic (Seq r1 r2) = {w. \<exists>u v. w = u @ v \<and> u \<in> lang ic r1 \<and> v \<in> lang ic r2}"
| "lang ic (Alt r1 r2) = lang ic r1 \<union> lang ic r2"
| "lang ic (Grp n r) = lang ic r"
| "lang ic Eps = {[]}"
| "lang ic Bol = {[]}"
| "lang ic Eol = {[]}"

fun glang :: "bool \<Rightarrow> regex \<Rightarrow> nat \<Rightarrow> string set" where
  "glang ic (Seq r1 r2) n = glang ic r1 n \<union> glang ic r2 n"
| "glang ic (Alt r1 r2) n = glang ic r1 n \<union> glang ic r2 n"
| "glang ic (Grp m r) n = (if m = n then lang ic r else {}) \<union> glang ic r n"
| "glang ic _ n = {}"

fun binds :: "regex \<Rightarrow> nat \<Rightarrow> bool" where
  "binds (Seq r1 r2) n = (binds r1 n \<or> binds r2 n)"
| "binds (Alt r1 r2) n = (binds r1 n \<and> binds r2 n)"
| "binds (Grp m r) n = (m = n \<or> binds r n)"
| "binds _ n = False"

text \<open>Pages and lines for the line parser and the check extractor.\<close>

definition checks_page :: string where
  "checks_page = ''Checks\<newline>03/02 *1042 250.00\<newline>13/45 1043 10.00\<newline>03/04 1044 1,250.00\<newline>Total checks = 3''"

definition rows_text :: string where
  "rows_text = ''03/14 ACH CORP DEBIT  1,000.00\<newline>13/45 NO SUCH DAY  1.00\<newline>03/15 ACME CORP PAYMENT  123.45''"

text \<open>The keys the section markers are stored under.\<close>

definition marker_keys :: "string list" where
  "marker_keys = [''withdraw_header'', ''withdraw_table'', ''deposit_header'', ''deposit_table'',
     ''total_withdraw'', ''total_deposit'']"

text \<open>
  A continuation page with a checks block and one table whose rows mention keywords of
  both kinds.
\<close>

definition example_page :: string where
  "example_page = ''(continued)\<newline>Checks\<newline>03/15 *1042 250.00\<newline>DATE DESCRIPTION AMOUNT\<newline>03/15 ZELLE DEPOSIT REFUND  10.00\<newline>03/16 INCOMING WIRE REF# 12  20.00''"

definition check_1042 :: transaction where
  "check_1042 = \<lparr>date = \<lparr>year = 2025, month = 3, day = 15\<rparr>, description = ''Check #1042'',
     amount = Finite False 25000 (- 2), transaction_type = CHECK, check_number = Some 1042\<rparr>"

definition zelle :: "TransactionType \<Rightarrow> transaction" where
  "zelle ty = \<lparr>date = \<lparr>year = 2025, month = 3, day = 15\<rparr>, description = ''ZELLE DEPOSIT REFUND'',
     amount = Finite False 1000 (- 2), transaction_type = ty, check_number = None\<rparr>"

definition wire :: "TransactionType \<Rightarrow> transaction" where
  "wire ty = \<lparr>date = \<lparr>year = 2025, month = 3, day = 16\<rparr>, description = ''INCOMING WIRE REF# 12'',
     amount = Finite False 2000 (- 2), transaction_type = ty, check_number = None\<rparr>"

definition example_statement :: BankStatement where
  "example_statement = \<lparr>bank_name = ''Truist'', account_number = None,
     statement_period_start = None, statement_period_end = None,
     transactions = [check_1042, zelle DEPOSIT, zelle WITHDRAWAL, wire DEPOSIT, wire WITHDRAWAL]\<rparr>"

text \<open>A first page whose statement period names the 30th of February.\<close>

definition bad_period_page :: string where
  "bad_period_page = ''Truist For 10/31/25 previous balance as of 02/30/2025''"




text \<open>Continuation pages for the keyword vote.\<close>

definition deposits_only_page :: string where
  "deposits_only_page = ''(continued)\<newline>DATE DESCRIPTION AMOUNT\<newline>03/15 PAYABLES ACME  10.00''"

definition withdrawals_only_page :: string where
  "withdrawals_only_page = ''(continued)\<newline>DATE DESCRIPTION AMOUNT\<newline>03/15 ZELLE PAYMENT  10.00''"

definition no_keyword_page :: string where
  "no_keyword_page = ''(continued)\<newline>DATE DESCRIPTION AMOUNT\<newline>03/15 ACME CORP  10.00''"

definition total_marker_page :: string where
  "total_marker_page = ''(continued)\<newline>Total other withdrawals 5.00\<newline>DATE DESCRIPTION AMOUNT\<newline>03/15 ZELLE PAYMENT  10.00''"

text \<open>A page of boilerplate that also carries a checks header, a table header and three rows.\<close>

definition boilerplate_page :: string where
  "boilerplate_page = ''Billing Rights Summary\<newline>Checks\<newline>DATE DESCRIPTION AMOUNT\<newline>03/15 ELECTRIC BILL 10.00\<newline>03/16 WATER BILL 20.00\<newline>03/17 GAS BILL 30.00''"

definition short_page :: string where
  "short_page = ''DATE DESCRIPTION AMOUNT''"

text \<open>The synthetic withdrawals block: the table header and one row.\<close>

definition withdrawals_block :: string where
  "withdrawals_block = ''DATE DESCRIPTION AMOUNT\<newline>03/15 ACME CORP PAYMENT  123.45\<newline>''"

section \<open>Evaluation of the character tables\<close>

text \<open>
  The tables of \<open>char_lower\<close> and \<open>is_digit\<close>, read off the bits of the character: the same
  functions, in a form that evaluates in one step.
\<close>

lemma char_lower_table:
  "\<forall>b0 b1 b2 b3 b4 b5 b6 b7. char_lower (Char b0 b1 b2 b3 b4 b5 b6 b7) =
     (if b6 \<and> \<not> b5 \<and>
         (if b7 then \<not> (b4 \<and> b2 \<and> b1 \<and> b0)
          else (b0 \<or> b1 \<or> b2 \<or> b3 \<or> b4) \<and> \<not> (b4 \<and> b3 \<and> (b2 \<or> (b1 \<and> b0))))
      then Char b0 b1 b2 b3 b4 True b6 b7 else Char b0 b1 b2 b3 b4 b5 b6 b7)"
  by code_simp

lemma char_lower_bits [code]:
  "char_lower (Char b0 b1 b2 b3 b4 b5 b6 b7) =
     (if b6 \<and> \<not> b5 \<and>
         (if b7 then \<not> (b4 \<and> b2 \<and> b1 \<and> b0)
          else (b0 \<or> b1 \<or> b2 \<or> b3 \<or> b4) \<and> \<not> (b4 \<and> b3 \<and> (b2 \<or> (b1 \<and> b0))))
      then Char b0 b1 b2 b3 b4 True b6 b7 else Char b0 b1 b2 b3 b4 b5 b6 b7)"
  using char_lower_table by blast

lemma is_digit_bits [code]:
  "is_digit (Char b0 b1 b2 b3 b4 b5 b6 b7) =
     (\<not> b7 \<and> \<not> b6 \<and> b5 \<and> b4 \<and> (\<not> b3 \<or> (\<not> b2 \<and> \<not> b1)))"
  by (cases b0; cases b1; cases b2; cases b3; cases b4; cases b5; cases b6; cases b7;
      simp add: is_digit_def)

section \<open>The errors of the conversions\<close>

lemma py_int_error: "py_int s = Inl e \<Longrightarrow> e = ValueError"
  by (auto simp: py_int_def Let_def split: prod.splits if_splits)

lemma Decimal_error: "Decimal s = Inl e \<Longrightarrow> e = InvalidOperation"
  by (auto simp: Decimal_def Let_def split: prod.splits option.splits)

lemma parse_amount_error: "parse_amount s = Inl e \<Longrightarrow> e = InvalidOperation"
  by (simp add: parse_amount_def Decimal_error)

lemma Transaction_error: "Transaction d desc a ty cn = Inl e \<Longrightarrow> e = ValidationError"
  by (auto simp: Transaction_def split: if_splits)

lemma Transaction_fields:
  "Transaction d desc a ty cn = Inr t \<Longrightarrow>
     date t = d \<and> description t = desc \<and> amount t = a \<and> transaction_type t = ty \<and>
     check_number t = cn \<and> amount_ge0 a"
  by (auto simp: Transaction_def split: if_splits)

lemma transaction_of_match_fields:
  "transaction_of_match yr ty ds desc as = Inr t \<Longrightarrow>
     transaction_type t = ty \<and> check_number t = None \<and> amount_ge0 (amount t) \<and> description t = desc"
  by (auto simp: transaction_of_match_def split: sum.splits dest: Transaction_fields)

lemma check_of_match_fields:
  "check_of_match yr m = Inr t \<Longrightarrow>
     transaction_type t = CHECK \<and> check_number t \<noteq> None \<and> amount_ge0 (amount t)"
  by (auto simp: check_of_match_def Let_def split: sum.splits dest: Transaction_fields)

text \<open>Splitting at a separator.\<close>

lemma split_on_nonempty: "split_on d s \<noteq> []"
  by (induction s) (auto split: list.splits)

lemma split_on_append:
  "split_on d (a @ d # b) = split_on d a @ split_on d b"
proof (induction a)
  case Nil
  show ?case by simp
next
  case (Cons c a)
  obtain w ws where w: "split_on d a = w # ws"
    using split_on_nonempty [of d a] by (cases "split_on d a") auto
  with Cons show ?case by simp
qed

lemma split_on_single: "d \<notin> set s \<Longrightarrow> split_on d s = [s]"
  by (induction s) auto

section \<open>What the extractors and the assembler return\<close>

lemma checks_loop_fields:
  "checks_loop yr ms acc = Inr cs \<Longrightarrow>
   list_all (\<lambda>t. transaction_type t = CHECK \<and> check_number t \<noteq> None \<and> amount_ge0 (amount t)) acc \<Longrightarrow>
   list_all (\<lambda>t. transaction_type t = CHECK \<and> check_number t \<noteq> None \<and> amount_ge0 (amount t)) cs"
proof (induction ms arbitrary: acc)
  case Nil
  then show ?case by simp
next
  case (Cons m ms)
  show ?case
  proof (cases "check_of_match yr m")
    case (Inl e)
    with Cons.prems have "checks_loop yr ms acc = Inr cs"
      by (simp split: if_splits)
    from Cons.IH [OF this Cons.prems(2)] show ?thesis .
  next
    case (Inr t)
    with Cons.prems have l: "checks_loop yr ms (acc @ [t]) = Inr cs" by simp
    from check_of_match_fields [OF Inr] Cons.prems(2) have
      "list_all (\<lambda>t. transaction_type t = CHECK \<and> check_number t \<noteq> None \<and> amount_ge0 (amount t))
         (acc @ [t])"
      by simp
    from Cons.IH [OF l this] show ?thesis .
  qed
qed

lemma lines_loop_fields:
  "lines_loop yr ty ls acc = Inr ts \<Longrightarrow>
   list_all (\<lambda>t. transaction_type t = ty \<and> check_number t = None \<and> amount_ge0 (amount t)) acc \<Longrightarrow>
   list_all (\<lambda>t. transaction_type t = ty \<and> check_number t = None \<and> amount_ge0 (amount t)) ts"
proof (induction ls arbitrary: acc)
  case Nil
  then show ?case by simp
next
  case (Cons line ls)
  let ?P = "\<lambda>t. transaction_type t = ty \<and> check_number t = None \<and> amount_ge0 (amount t)"
  from Cons.prems(1) consider
    (skip) "lines_loop yr ty ls acc = Inr ts" |
    (add) m t where "re_match False LINE_PATTERN (strip line) = Some m"
      "transaction_of_match yr ty (group m 1) (strip (group m 2)) (group m 3) = Inr t"
      "lines_loop yr ty ls (acc @ [t]) = Inr ts"
    by (auto simp: Let_def split: if_splits option.splits sum.splits)
  then show ?case
  proof cases
    case skip
    from Cons.IH [OF this Cons.prems(2)] show ?thesis .
  next
    case add
    from transaction_of_match_fields [OF add(2)] Cons.prems(2) have "list_all ?P (acc @ [t])"
      by simp
    from Cons.IH [OF add(3) this] show ?thesis .
  qed
qed

lemma extract_checks_fields:
  "extract_checks_from_page text yr = Inr cs \<Longrightarrow>
   list_all (\<lambda>t. transaction_type t = CHECK \<and> check_number t \<noteq> None \<and> amount_ge0 (amount t)) cs"
  using checks_loop_fields [of yr _ "[]" cs]
  by (auto simp: extract_checks_from_page_def Let_def split: option.splits)

lemma extract_text_fields:
  "extract_transactions_from_text text yr ty = Inr ts \<Longrightarrow>
   list_all (\<lambda>t. transaction_type t = ty \<and> check_number t = None \<and> amount_ge0 (amount t)) ts"
  using lines_loop_fields [of yr ty _ "[]" ts]
  by (auto simp: extract_transactions_from_text_def)

lemma extract_withdrawals_fields:
  "extract_withdrawals_from_page text yr = Inr ws \<Longrightarrow>
   list_all (\<lambda>t. transaction_type t = WITHDRAWAL \<and> check_number t = None \<and> amount_ge0 (amount t)) ws"
  by (auto simp: extract_withdrawals_from_page_def split: option.splits dest: extract_text_fields)

lemma extract_deposits_fields:
  "extract_deposits_from_page text yr = Inr ds \<Longrightarrow>
   list_all (\<lambda>t. transaction_type t = DEPOSIT \<and> check_number t = None \<and> amount_ge0 (amount t)) ds"
  by (auto simp: extract_deposits_from_page_def split: option.splits dest: extract_text_fields)

lemma extract_page_well_formed:
  assumes "extract_page page yr = Inr txs"
  shows "list_all well_formed txs"
proof -
  from assms obtain cs ws ds where
    c: "extract_checks_from_page page yr = Inr cs" and
    w: "extract_withdrawals_from_page page yr = Inr ws" and
    d: "extract_deposits_from_page page yr = Inr ds" and
    t: "txs = cs @ ws @ ds"
    by (auto simp: extract_page_def split: sum.splits)
  have "list_all well_formed cs"
    using extract_checks_fields [OF c] by (auto simp: list_all_iff well_formed_def)
  moreover have "list_all well_formed ws"
    using extract_withdrawals_fields [OF w] by (auto simp: list_all_iff well_formed_def)
  moreover have "list_all well_formed ds"
    using extract_deposits_fields [OF d] by (auto simp: list_all_iff well_formed_def)
  ultimately show ?thesis using t by simp
qed

lemma pages_loop_well_formed:
  "pages_loop pages yr items acc = Inr txs \<Longrightarrow> list_all well_formed acc \<Longrightarrow> list_all well_formed txs"
proof (induction items arbitrary: acc)
  case Nil
  then show ?case by simp
next
  case (Cons item items)
  obtain page_num is_tp where i: "item = (page_num, is_tp)" by (cases item)
  show ?case
  proof (cases is_tp)
    case False
    with Cons i show ?thesis by simp
  next
    case True
    with Cons.prems(1) i obtain y new where
      "extract_page (pages ! page_num) y = Inr new" and
      "pages_loop pages yr items (acc @ new) = Inr txs"
      by (auto split: if_splits option.splits sum.splits)
    with Cons.IH [of "acc @ new"] Cons.prems(2) extract_page_well_formed show ?thesis
      by auto
  qed
qed

lemma parse_transactions:
  "parse today pdf = Inr st \<Longrightarrow>
   \<exists>pages yr txs. pdf = Some pages \<and> pages_loop pages yr (classify_pages pages) [] = Inr txs \<and>
     transactions st = sort_key sort_key_of txs"
  by (fastforce simp: parse_def split: option.splits sum.splits prod.splits)



section \<open>Amounts with two fractional digits\<close>

lemma strip_by_id:
  assumes "r \<noteq> []" "\<not> p (hd r)" "\<not> p (last r)"
  shows "strip_by p r = r"
proof -
  from assms have a: "dropWhile p r = r" by (cases r) auto
  from assms have "dropWhile p (rev r) = rev r" by (cases "rev r") (auto simp: last_rev [symmetric] hd_rev)
  with a show ?thesis by (simp add: strip_by_def)
qed

lemma digit_not_space: "is_digit c \<Longrightarrow> \<not> is_space c"
  by (auto simp: is_digit_def is_space_def)

lemma filter_dropWhile_disjoint:
  "(\<And>x. q x \<Longrightarrow> \<not> p x) \<Longrightarrow> filter p (dropWhile q xs) = filter p xs"
  by (induction xs) auto

lemma filter_strip_digits: "filter is_digit (strip s) = filter is_digit s"
proof -
  have d: "\<And>xs. filter is_digit (dropWhile is_space xs) = filter is_digit xs"
    by (rule filter_dropWhile_disjoint) (auto dest: digit_not_space)
  show ?thesis
    by (simp add: strip_def strip_by_def d rev_filter [symmetric] del: rev_filter)
qed

lemma filter_remove_comma: "filter is_digit (remove_char (CHR '','') s) = filter is_digit s"
  by (induction s) (auto simp: remove_char_def is_digit_def)

lemma two_decimals_shape:
  assumes "signless_two_decimals r"
  shows "\<exists>ip fp. r = ip @ CHR ''.'' # fp \<and> list_all is_digit ip \<and> list_all is_digit fp \<and> length fp = 2"
proof -
  from assms obtain fp where d: "dropWhile is_digit r = CHR ''.'' # fp" and
    f: "length fp = 2" "list_all is_digit fp"
    by (auto simp: signless_two_decimals_def split: list.splits)
  have "r = takeWhile is_digit r @ CHR ''.'' # fp"
    using takeWhile_dropWhile_id [of is_digit r] d by simp
  moreover have "list_all is_digit (takeWhile is_digit r)"
    by (simp add: list_all_iff) (meson set_takeWhileD)
  ultimately show ?thesis using f by blast
qed

lemma dot_facts:
  "\<not> is_digit (CHR ''.'')" "\<not> is_space (CHR ''.'')" "CHR ''.'' \<noteq> CHR ''_''"
  "CHR ''.'' \<noteq> CHR ''-''" "CHR ''.'' \<noteq> CHR ''+''"
  by (simp_all add: is_digit_def is_space_def)

lemma digit_not_mark:
  "is_digit c \<Longrightarrow> c \<noteq> CHR ''_'' \<and> c \<noteq> CHR ''-'' \<and> c \<noteq> CHR ''+'' \<and> c \<noteq> CHR ''.'' \<and> c \<noteq> CHR '',''"
  by (auto simp: is_digit_def)

lemma Decimal_two_decimals:
  assumes ip: "list_all is_digit ip" and fp: "list_all is_digit fp" and l: "length fp = 2"
  shows "Decimal (ip @ CHR ''.'' # fp) = Inr (Finite False (digits_val 0 (ip @ fp)) (- 2))"
proof -
  let ?r = "ip @ CHR ''.'' # fp"
  obtain y ys where fpl: "fp = ys @ [y]"
    using l by (cases fp rule: rev_cases) auto
  have y: "is_digit y" using fp fpl by simp
  have hd: "\<not> is_space (hd ?r)"
  proof (cases ip)
    case Nil
    then show ?thesis by (simp add: dot_facts)
  next
    case (Cons c cs)
    with ip show ?thesis by (simp add: digit_not_space)
  qed
  have la: "\<not> is_space (last ?r)"
    using y fpl by (simp add: digit_not_space)
  have s: "strip ?r = ?r"
    unfolding strip_def using hd la by (intro strip_by_id) simp_all
  have all: "\<forall>c \<in> set ?r. c \<noteq> CHR ''_''"
    using ip fp digit_not_mark dot_facts by (auto simp: list_all_iff)
  have u: "remove_char (CHR ''_'') ?r = ?r"
    unfolding remove_char_def using all by (simp only: filter_id_conv) 
  have sg: "split_sign ?r = (False, ?r)"
  proof (cases ip)
    case Nil
    then show ?thesis by (simp add: split_sign_def)
  next
    case (Cons c cs)
    with ip have "is_digit c" by simp
    from digit_not_mark [OF this] Cons show ?thesis by (simp add: split_sign_def)
  qed
  have tw: "takeWhile is_digit ?r = ip" "dropWhile is_digit ?r = CHR ''.'' # fp"
    using ip dot_facts(1) by (simp_all add: list_all_iff takeWhile_append2 dropWhile_append2)
  have tf: "takeWhile is_digit fp = fp" "dropWhile is_digit fp = []"
    using fp by (simp_all add: list_all_iff)
  have ne: "fp \<noteq> []" using l by auto
  have "decimal_numeric ?r = Some (digits_val 0 (ip @ fp), - 2)"
    by (simp add: decimal_numeric_def Let_def tw tf ne l)
  then show ?thesis
    by (simp add: Decimal_def s u sg)
qed

section \<open>What a match consumes and what its groups hold\<close>

lemma runs_shape:
  "(p', s') \<in> set (runs p pos s) \<Longrightarrow>
     \<exists>w. s = w @ s' \<and> p' = pos + length w \<and> list_all p w"
proof (induction s arbitrary: pos)
  case Nil
  then show ?case by simp
next
  case (Cons c cs)
  show ?case
  proof (cases "(p', s') = (pos, c # cs)")
    case True
    then show ?thesis by simp
  next
    case False
    with Cons.prems have pc: "p c" and "(p', s') \<in> set (runs p (Suc pos) cs)"
      by (auto split: if_splits)
    from Cons.IH [OF this(2)] obtain w where
      "cs = w @ s'" "p' = Suc pos + length w" "list_all p w" by blast
    with pc show ?thesis by (intro exI [of _ "c # w"]) simp
  qed
qed

lemma runs_nth:
  "i < length (runs p pos s) \<Longrightarrow> runs p pos s ! i = (pos + i, drop i s)"
proof (induction s arbitrary: pos i)
  case Nil
  then show ?case by simp
next
  case (Cons c cs)
  then show ?case by (cases i) (auto split: if_splits)
qed

lemma rep_choices_shape:
  assumes "(p', s') \<in> set (rep_choices p lo hi greedy pos s)"
  shows "\<exists>w. s = w @ s' \<and> p' = pos + length w \<and> list_all p w \<and> lo \<le> length w \<and>
             (case hi of None \<Rightarrow> True | Some h \<Rightarrow> length w \<le> h)"
proof -
  from assms have m: "(p', s') \<in> set (case hi of None \<Rightarrow> drop lo (runs p pos s)
      | Some h \<Rightarrow> take (Suc h - lo) (drop lo (runs p pos s)))"
    by (auto simp: rep_choices_def Let_def split: if_splits)
  define rs where "rs = runs p pos s"
  have "\<exists>i. i < length rs \<and> lo \<le> i \<and> (case hi of None \<Rightarrow> True | Some h \<Rightarrow> i \<le> h) \<and>
      (p', s') = rs ! i"
  proof (cases hi)
    case None
    with m have "(p', s') \<in> set (drop lo rs)" by (simp add: rs_def)
    then obtain j where "j < length (drop lo rs)" "drop lo rs ! j = (p', s')"
      by (auto simp: in_set_conv_nth)
    then show ?thesis using None by (intro exI [of _ "lo + j"]) auto
  next
    case (Some h)
    with m have "(p', s') \<in> set (take (Suc h - lo) (drop lo rs))" by (simp add: rs_def)
    then obtain j where "j < length (take (Suc h - lo) (drop lo rs))"
      "take (Suc h - lo) (drop lo rs) ! j = (p', s')"
      by (auto simp: in_set_conv_nth)
    then show ?thesis using Some by (intro exI [of _ "lo + j"]) auto
  qed
  then obtain i where i: "i < length rs" "lo \<le> i"
    "case hi of None \<Rightarrow> True | Some h \<Rightarrow> i \<le> h" "(p', s') = rs ! i"
    by blast
  from i(1,4) have e: "p' = pos + i" "s' = drop i s"
    by (simp_all add: rs_def runs_nth)
  from i(1,4) have "(p', s') \<in> set (runs p pos s)" by (auto simp: rs_def)
  from runs_shape [OF this] obtain w where w: "s = w @ s'" "p' = pos + length w" "list_all p w"
    by blast
  with e have "length w = i" by simp
  with w i show ?thesis by (intro exI [of _ w]) (auto split: option.splits)
qed

text \<open>
  What a match consumes is a word of the pattern's language, and the groups it adds hold
  words of theirs.
\<close>

lemma rmatch_shape:
  "(g', p', s') \<in> set (rmatch ic r g pos s) \<Longrightarrow>
     \<exists>w new. s = w @ s' \<and> p' = pos + length w \<and> w \<in> lang ic r \<and> g' = new @ g \<and>
       (\<forall>(n, x) \<in> set new. x \<in> glang ic r n) \<and>
       (\<forall>n. binds r n \<longrightarrow> n \<in> fst ` set new)"
proof (induction r arbitrary: g pos s g' p' s')
  case (Atom a)
  then show ?case by (cases s) (auto split: if_splits)
next
  case (Rep a lo hi greedy)
  then have "(p', s') \<in> set (rep_choices (atom_match ic a) lo hi greedy pos s)" and "g' = g"
    by auto
  from rep_choices_shape [OF this(1)] \<open>g' = g\<close> show ?case by auto
next
  case (Seq r1 r2)
  from Seq.prems obtain g1 p1 s1 where
    a: "(g1, p1, s1) \<in> set (rmatch ic r1 g pos s)" and
    b: "(g', p', s') \<in> set (rmatch ic r2 g1 p1 s1)"
    by auto
  from Seq.IH(1) [OF a] obtain w1 new1 where
    1: "s = w1 @ s1" "p1 = pos + length w1" "w1 \<in> lang ic r1" "g1 = new1 @ g"
       "\<forall>(n, x) \<in> set new1. x \<in> glang ic r1 n" "\<forall>n. binds r1 n \<longrightarrow> n \<in> fst ` set new1"
    by blast
  from Seq.IH(2) [OF b] obtain w2 new2 where
    2: "s1 = w2 @ s'" "p' = p1 + length w2" "w2 \<in> lang ic r2" "g' = new2 @ g1"
       "\<forall>(n, x) \<in> set new2. x \<in> glang ic r2 n" "\<forall>n. binds r2 n \<longrightarrow> n \<in> fst ` set new2"
    by blast
  show ?case
    using 1 2 by (intro exI [of _ "w1 @ w2"] exI [of _ "new2 @ new1"]) (auto simp: image_Un)
next
  case (Alt r1 r2)
  then consider "(g', p', s') \<in> set (rmatch ic r1 g pos s)" | "(g', p', s') \<in> set (rmatch ic r2 g pos s)"
    by auto
  then show ?case
  proof cases
    case 1
    from Alt.IH(1) [OF this] show ?thesis by fastforce
  next
    case 2
    from Alt.IH(2) [OF this] show ?thesis by fastforce
  qed
next
  case (Grp n r)
  from Grp.prems obtain gi where
    a: "(gi, p', s') \<in> set (rmatch ic r g pos s)" and g': "g' = (n, take (p' - pos) s) # gi"
    by auto
  from Grp.IH [OF a] obtain w new where
    1: "s = w @ s'" "p' = pos + length w" "w \<in> lang ic r" "gi = new @ g"
       "\<forall>(n, x) \<in> set new. x \<in> glang ic r n" "\<forall>n. binds r n \<longrightarrow> n \<in> fst ` set new"
    by blast
  then have "take (p' - pos) s = w" by simp
  with 1 g' show ?case
    by (intro exI [of _ w] exI [of _ "(n, w) # new"]) auto
next
  case Eps
  then show ?case by auto
next
  case Bol
  then show ?case by (auto split: if_splits)
next
  case Eol
  then show ?case by (auto split: if_splits)
qed

lemma rmatch_group:
  assumes "(g', e, rest) \<in> set (rmatch ic r [] pos s)" and "binds r n"
  shows "group (st, e, g') n \<in> glang ic r n"
proof -
  from rmatch_shape [OF assms(1)] have
    g: "\<forall>(n, x) \<in> set g'. x \<in> glang ic r n" and b: "\<forall>n. binds r n \<longrightarrow> n \<in> fst ` set g'"
    by auto
  from b assms(2) have "n \<in> fst ` set g'" by blast
  then obtain x where x: "map_of g' n = Some x"
    by (metis domIff dom_map_of_conv_image_fst not_None_eq)
  then have "(n, x) \<in> set g'" by (rule map_of_SomeD)
  with g x show ?thesis by (auto simp: group_def)
qed

lemma rmatch_first_group:
  assumes "rmatch ic r [] pos s = (g', e, rest) # xs" and "binds r n"
  shows "group (pos, e, g') n \<in> glang ic r n"
proof -
  from assms(1) have "(g', e, rest) \<in> set (rmatch ic r [] pos s)" by simp
  from rmatch_group [OF this assms(2)] show ?thesis .
qed

lemma re_match_group:
  assumes "re_match ic r s = Some m" and "binds r n"
  shows "group m n \<in> glang ic r n"
proof -
  from assms(1) obtain g' e rest xs where
    x: "rmatch ic r [] 0 s = (g', e, rest) # xs" and m: "m = (0, e, g')"
    by (auto simp: re_match_def split: list.splits)
  from rmatch_first_group [OF x assms(2)] m show ?thesis by simp
qed

lemma finditer_from_group:
  "m \<in> set (finditer_from ic r skip pos s) \<Longrightarrow> binds r n \<Longrightarrow> group m n \<in> glang ic r n"
proof (induction s arbitrary: skip pos)
  case Nil
  note prems = Nil.prems
  from prems(1) have skip: "skip = 0" by (cases "skip = 0") simp_all
  show ?case
  proof (cases "rmatch ic r [] pos []")
    case Nil
    with prems(1) skip show ?thesis by simp
  next
    case (Cons x xs)
    obtain g' e rest where x: "x = (g', e, rest)" by (cases x)
    with Cons prems(1) skip have m: "m = (pos, e, g')" by simp
    from Cons x have "rmatch ic r [] pos [] = (g', e, rest) # xs" by simp
    from rmatch_first_group [OF this prems(2)] m show ?thesis by simp
  qed
next
  case (Cons c cs)
  note prems = Cons.prems and IH = Cons.IH
  show ?case
  proof (cases "skip = 0")
    case False
    with prems(1) have "m \<in> set (finditer_from ic r (skip - 1) (Suc pos) cs)" by simp
    from IH [OF this prems(2)] show ?thesis .
  next
    case True
    show ?thesis
    proof (cases "rmatch ic r [] pos (c # cs)")
      case Nil
      with True prems(1) have "m \<in> set (finditer_from ic r 0 (Suc pos) cs)" by simp
      from IH [OF this prems(2)] show ?thesis .
    next
      case (Cons x xs)
      obtain g' e rest where x: "x = (g', e, rest)" by (cases x)
      from Cons x True prems(1) consider "m = (pos, e, g')" |
        "m \<in> set (finditer_from ic r (e - Suc pos) (Suc pos) cs)"
        by auto
      then show ?thesis
      proof cases
        case 1
        from Cons x have "rmatch ic r [] pos (c # cs) = (g', e, rest) # xs" by simp
        from rmatch_first_group [OF this prems(2)] 1 show ?thesis by simp
      next
        case 2
        from IH [OF this prems(2)] show ?thesis .
      qed
    qed
  qed
qed

lemma re_finditer_group:
  "m \<in> set (re_finditer ic r s) \<Longrightarrow> binds r n \<Longrightarrow> group m n \<in> glang ic r n"
  by (simp add: re_finditer_def finditer_from_group)

section \<open>The date of a matched line\<close>

lemma lang_times_digit: "lang ic (times Digit n) = {w. list_all is_digit w \<and> length w = n}"
  by (auto simp: times_def list_all_iff)

lemma lang_slash: "lang False (Atom (Lit (CHR ''/''))) = {''/''}"
  by auto

lemma lang_MM_DD:
  "lang False MM_DD =
     {w. \<exists>a b. w = a @ CHR ''/'' # b \<and> list_all is_digit a \<and> length a = 2 \<and>
                list_all is_digit b \<and> length b = 2}"
  by (auto simp: MM_DD_def lang_times_digit lang_slash)

lemma glang_MM_DD: "glang ic MM_DD n = {}"
  by (simp add: MM_DD_def times_def)

lemma glang_AMOUNT: "glang ic AMOUNT n = {}"
  by (simp add: AMOUNT_def times_def plus_def)

lemma line_date_group:
  "re_match False LINE_PATTERN (strip line) = Some m \<Longrightarrow> group m 1 \<in> lang False MM_DD"
proof -
  have b: "binds LINE_PATTERN 1" by (simp add: LINE_PATTERN_def)
  have g: "glang False LINE_PATTERN 1 = lang False MM_DD"
    by (simp add: LINE_PATTERN_def glang_MM_DD glang_AMOUNT ws0_def ws1_def star_def plus_def
          lazy_plus_def)
  assume "re_match False LINE_PATTERN (strip line) = Some m"
  from re_match_group [OF this b] g show ?thesis by simp
qed

lemma check_date_group:
  "m \<in> set (re_finditer False CHECK_PATTERN s) \<Longrightarrow> group m 1 \<in> lang False MM_DD"
proof -
  have b: "binds CHECK_PATTERN 1" by (simp add: CHECK_PATTERN_def)
  have g: "glang False CHECK_PATTERN 1 = lang False MM_DD"
    by (simp add: CHECK_PATTERN_def glang_MM_DD glang_AMOUNT ws1_def plus_def opt_def)
  assume "m \<in> set (re_finditer False CHECK_PATTERN s)"
  from re_finditer_group [OF this b] g show ?thesis by simp
qed

lemma digit_val_bounds: "0 \<le> digit_val c \<and> digit_val c \<le> 9"
  by (simp add: digit_val_def)

lemma digits_val_two: "length w = 2 \<Longrightarrow> c_int (digits_val 0 w)"
proof -
  assume "length w = 2"
  then obtain a b where w: "w = [a, b]"
    by (cases w; cases "tl w") auto
  show ?thesis
    using digit_val_bounds [of a] digit_val_bounds [of b] by (simp add: w c_int_def)
qed

lemma digit_not_int_space: "is_digit c \<Longrightarrow> \<not> is_int_space c"
  by (auto simp: is_digit_def is_int_space_def)

lemma digit_not_slash: "is_digit c \<Longrightarrow> c \<noteq> CHR ''/''"
  by (auto simp: is_digit_def)

lemma valid_int_body_digits: "w \<noteq> [] \<Longrightarrow> list_all is_digit w \<Longrightarrow> valid_int_body w"
proof (induction w rule: valid_int_body.induct)
  case 1
  then show ?case by simp
next
  case (2 c)
  then show ?case by simp
next
  case (3 c d cs)
  then have "is_digit d" by simp
  from digit_not_mark [OF this] 3 show ?case by simp
qed

lemma py_int_digits:
  assumes "w \<noteq> []" and d: "list_all is_digit w" and l: "length w \<le> 4300"
  shows "py_int w = Inr (digits_val 0 w)"
proof -
  obtain c cs where w: "w = c # cs" using assms(1) by (cases w) auto
  obtain y ys where wl: "w = ys @ [y]" using assms(1) by (cases w rule: rev_cases) auto
  have c: "is_digit c" using d w by simp
  have y: "is_digit y" using d wl by simp
  have hd: "\<not> is_int_space (hd w)" using c w by (simp add: digit_not_int_space)
  have la: "\<not> is_int_space (last w)" using y wl by (simp add: digit_not_int_space)
  have "strip_by is_int_space w = w"
    using assms(1) hd la by (rule strip_by_id)
  moreover have "split_sign w = (False, w)"
    using digit_not_mark [OF c] by (simp add: split_sign_def w)
  moreover have "remove_char (CHR ''_'') w = w"
    unfolding remove_char_def using d digit_not_mark by (auto simp: filter_id_conv list_all_iff)
  ultimately show ?thesis
    using valid_int_body_digits [OF assms(1,2)] l by (simp add: py_int_def)
qed

text \<open>The date of a matched line is built from two numbers of two digits.\<close>

lemma parse_date_matched:
  assumes "ds \<in> lang False MM_DD"
  shows "\<exists>m d. c_int m \<and> c_int d \<and> parse_date ds yr = make_date yr m d"
proof -
  from assms obtain a b where w: "ds = a @ CHR ''/'' # b" and
    d: "list_all is_digit a" "list_all is_digit b" and l: "length a = 2" "length b = 2"
    by (auto simp: lang_MM_DD)
  have ns: "CHR ''/'' \<notin> set a" "CHR ''/'' \<notin> set b"
    using d digit_not_slash by (auto simp: list_all_iff)
  have s: "split_on (CHR ''/'') ds = [a, b]"
    by (simp add: w split_on_append split_on_single ns)
  have ne: "a \<noteq> []" "b \<noteq> []" using l by auto
  have "parse_date ds yr = make_date yr (digits_val 0 a) (digits_val 0 b)"
    using l by (simp add: parse_date_def s py_int_digits ne d)
  with digits_val_two [OF l(1)] digits_val_two [OF l(2)] show ?thesis by blast
qed

lemma parse_date_caught:
  assumes "c_int yr" and "ds \<in> lang False MM_DD" and "parse_date ds yr = Inl e"
  shows "e = ValueError"
proof -
  from parse_date_matched [OF assms(2)] obtain m d where
    "c_int m" "c_int d" "parse_date ds yr = make_date yr m d" by blast
  with assms(1,3) show ?thesis by (auto simp: make_date_def split: if_splits)
qed

section \<open>The loops of the line parser and the check extractor\<close>

lemma transaction_of_match_caught:
  "c_int yr \<Longrightarrow> ds \<in> lang False MM_DD \<Longrightarrow> transaction_of_match yr ty ds desc as = Inl e \<Longrightarrow>
   caught e"
  by (auto simp: transaction_of_match_def caught_def is_ValueError_def split: sum.splits
      dest: parse_date_caught parse_amount_error Transaction_error)

lemma check_of_match_caught:
  "c_int yr \<Longrightarrow> group m 1 \<in> lang False MM_DD \<Longrightarrow> check_of_match yr m = Inl e \<Longrightarrow> caught e"
  by (auto simp: check_of_match_def Let_def caught_def is_ValueError_def split: sum.splits
      dest: parse_date_caught parse_amount_error Transaction_error py_int_error)

text \<open>
  With a year that fits a C \<open>int\<close> no error leaves the loops, and what they return is the
  accumulator followed by what each line, or each match, owes.
\<close>

lemma lines_loop_exact:
  assumes "c_int yr"
  shows "lines_loop yr ty ls acc = Inr (acc @ concat (map (line_records yr ty) ls))"
proof (induction ls arbitrary: acc)
  case Nil
  show ?case by simp
next
  case (Cons line ls)
  show ?case
  proof (cases "skipped_line line")
    case True
    with Cons show ?thesis by (simp add: line_records_def)
  next
    case ns: False
    show ?thesis
    proof (cases "re_match False LINE_PATTERN (strip line)")
      case None
      with ns Cons show ?thesis by (simp add: line_records_def)
    next
      case (Some m)
      show ?thesis
      proof (cases "length (strip (group m 2)) < 3")
        case True
        with ns Some Cons show ?thesis by (simp add: line_records_def Let_def)
      next
        case long: False
        then have ne: "strip (group m 2) \<noteq> []" by auto
        show ?thesis
        proof (cases "transaction_of_match yr ty (group m 1) (strip (group m 2)) (group m 3)")
          case (Inl e)
          from transaction_of_match_caught [OF assms line_date_group [OF Some] Inl]
          have "caught e" .
          with ns Some long ne Inl Cons show ?thesis
            by (simp add: line_records_def Let_def)
        next
          case (Inr t)
          with ns Some long ne Cons show ?thesis
            by (simp add: line_records_def Let_def)
        qed
      qed
    qed
  qed
qed

lemma checks_loop_exact:
  assumes "c_int yr"
  shows "list_all (\<lambda>m. group m 1 \<in> lang False MM_DD) ms \<Longrightarrow>
         checks_loop yr ms acc = Inr (acc @ concat (map (check_records yr) ms))"
proof (induction ms arbitrary: acc)
  case Nil
  show ?case by simp
next
  case (Cons m ms)
  then have g: "group m 1 \<in> lang False MM_DD" and
    r: "list_all (\<lambda>m. group m 1 \<in> lang False MM_DD) ms"
    by simp_all
  show ?case
  proof (cases "check_of_match yr m")
    case (Inl e)
    from check_of_match_caught [OF assms g Inl] have "caught e" .
    with Inl Cons.IH [OF r] show ?thesis by (simp add: check_records_def)
  next
    case (Inr t)
    with Cons.IH [OF r] show ?thesis by (simp add: check_records_def)
  qed
qed

lemma extract_text_exact:
  "c_int yr \<Longrightarrow>
   extract_transactions_from_text text yr ty =
     Inr (concat (map (line_records yr ty) (split_on newline text)))"
  by (simp add: extract_transactions_from_text_def lines_loop_exact)

lemma extract_checks_exact:
  assumes "c_int yr"
  shows "extract_checks_from_page text yr = Inr (concat (map (check_records yr) (check_matches text)))"
proof (cases "re_search True CHECKS_HEADER text")
  case None
  then show ?thesis by (simp add: extract_checks_from_page_def check_matches_def)
next
  case (Some h)
  have "list_all (\<lambda>m. group m 1 \<in> lang False MM_DD) (re_finditer False CHECK_PATTERN s)" for s
    unfolding list_all_iff using check_date_group by blast
  from checks_loop_exact [OF assms this, of _ "[]"] Some show ?thesis
    by (simp add: extract_checks_from_page_def check_matches_def Let_def)
qed

section \<open>Evaluation of the example documents\<close>

subsection \<open>The example page\<close>

lemma ex_length: "length example_page = 130"
  by code_simp

lemma ex_meta: "extract_metadata 2025 [example_page] = Inr (Some 2025, None)"
  by code_simp

lemma ex_period: "extract_statement_period [example_page] (Some 2025) = Inr (None, None)"
  by code_simp

lemma ex_class: "is_transaction_page example_page = True"
  by code_simp

lemma ex_checks: "extract_checks_from_page example_page 2025 = Inr [check_1042]"
  by code_simp

lemma ex_cont: "is_continuation example_page = True"
  by code_simp

lemma ex_th: "re_search True TABLE_HEADER example_page = Some (38, 61, [])"
  by code_simp

lemma ex_markers:
  "map (find_section_markers example_page) marker_keys = [None, None, None, None, None, None]"
  by code_simp

lemma ex_marker:
  "find_section_markers example_page ''withdraw_header'' = None"
  "find_section_markers example_page ''withdraw_table'' = None"
  "find_section_markers example_page ''deposit_header'' = None"
  "find_section_markers example_page ''deposit_table'' = None"
  "find_section_markers example_page ''total_withdraw'' = None"
  "find_section_markers example_page ''total_deposit'' = None"
  using ex_markers by (simp_all add: marker_keys_def)

lemma ex_dep: "any_keyword deposit_indicators (window example_page (38, 61, [])) = True"
  by code_simp

lemma ex_wd: "any_keyword withdrawal_indicators (window example_page (38, 61, [])) = True"
  by code_simp

lemma ex_page_marker: "re_search True PAGE_MARKER (drop 61 example_page) = None"
  by code_simp

lemma ex_end_marker: "re_search True END_MARKER (drop 61 example_page) = None"
  by code_simp

lemma ex_wspan: "withdrawals_span example_page = Some (61, 130)"
  by (simp add: withdrawals_span_def Let_def ex_marker ex_cont ex_th ex_dep ex_wd m_end_def
        ex_page_marker ex_length)

lemma ex_dspan: "deposits_span example_page = Some (61, 130)"
  by (simp add: deposits_span_def Let_def ex_marker ex_cont ex_th ex_dep m_end_def
        ex_end_marker ex_length)

lemma ex_rows_w:
  "extract_transactions_from_text (slice example_page 61 130) 2025 WITHDRAWAL =
     Inr [zelle WITHDRAWAL, wire WITHDRAWAL]"
  by code_simp

lemma ex_rows_d:
  "extract_transactions_from_text (slice example_page 61 130) 2025 DEPOSIT =
     Inr [zelle DEPOSIT, wire DEPOSIT]"
  by code_simp

lemma ex_w: "extract_withdrawals_from_page example_page 2025 = Inr [zelle WITHDRAWAL, wire WITHDRAWAL]"
  by (simp add: extract_withdrawals_from_page_def ex_wspan ex_rows_w)

lemma ex_d: "extract_deposits_from_page example_page 2025 = Inr [zelle DEPOSIT, wire DEPOSIT]"
  by (simp add: extract_deposits_from_page_def ex_dspan ex_rows_d)

lemma ex_sort:
  "sort_key sort_key_of [check_1042, zelle WITHDRAWAL, wire WITHDRAWAL, zelle DEPOSIT, wire DEPOSIT] =
     [check_1042, zelle DEPOSIT, zelle WITHDRAWAL, wire DEPOSIT, wire WITHDRAWAL]"
  by code_simp

lemma ex_parse: "parse 2025 (Some [example_page]) = Inr example_statement"
proof -
  have loop: "pages_loop [example_page] (Some 2025) (classify_pages [example_page]) [] =
      Inr [check_1042, zelle WITHDRAWAL, wire WITHDRAWAL, zelle DEPOSIT, wire DEPOSIT]"
    by (simp add: classify_pages_def ex_class extract_page_def ex_checks ex_w ex_d)
  show ?thesis
    by (simp add: parse_def ex_meta ex_period loop ex_sort example_statement_def del: sort_key_simps)
qed

lemma ex_not_declared: "sorted (map declared_key (transactions example_statement)) = False"
  by code_simp

subsection \<open>The continuation pages of the keyword vote\<close>

lemma dep_page:
  "is_continuation deposits_only_page = True"
  "re_search True TABLE_HEADER deposits_only_page = Some (12, 35, [])"
  "map (find_section_markers deposits_only_page) marker_keys = [None, None, None, None, None, None]"
  "any_keyword deposit_indicators (window deposits_only_page (12, 35, [])) = True"
  "any_keyword withdrawal_indicators (window deposits_only_page (12, 35, [])) = False"
  by code_simp+

lemma wd_page:
  "is_continuation withdrawals_only_page = True"
  "re_search True TABLE_HEADER withdrawals_only_page = Some (12, 35, [])"
  "map (find_section_markers withdrawals_only_page) marker_keys = [None, None, None, None, None, None]"
  "any_keyword deposit_indicators (window withdrawals_only_page (12, 35, [])) = False"
  "any_keyword withdrawal_indicators (window withdrawals_only_page (12, 35, [])) = True"
  by code_simp+

lemma no_page:
  "is_continuation no_keyword_page = True"
  "re_search True TABLE_HEADER no_keyword_page = Some (12, 35, [])"
  "map (find_section_markers no_keyword_page) marker_keys = [None, None, None, None, None, None]"
  "any_keyword deposit_indicators (window no_keyword_page (12, 35, [])) = False"
  "any_keyword withdrawal_indicators (window no_keyword_page (12, 35, [])) = False"
  by code_simp+

lemma total_page:
  "is_continuation total_marker_page = True"
  "re_search True TABLE_HEADER total_marker_page = Some (41, 64, [])"
  "map (find_section_markers total_marker_page) marker_keys = [None, None, None, None, Some 12, None]"
  "any_keyword deposit_indicators (window total_marker_page (41, 64, [])) = False"
  "any_keyword withdrawal_indicators (window total_marker_page (41, 64, [])) = True"
  "re_search True TABLE_HEADER (drop 12 total_marker_page) = Some (29, 52, [])"
  "re_search True END_MARKER (drop 64 total_marker_page) = None"
  "length total_marker_page = 91"
  "extract_transactions_from_text (slice total_marker_page 64 91) 2025 DEPOSIT =
     Inr [\<lparr>date = \<lparr>year = 2025, month = 3, day = 15\<rparr>, description = ''ZELLE PAYMENT'',
           amount = Finite False 1000 (- 2), transaction_type = DEPOSIT, check_number = None\<rparr>]"
  by code_simp+

lemma total_page_dspan: "deposits_span total_marker_page = Some (64, 91)"
proof -
  have "find_section_markers total_marker_page ''deposit_table'' = None"
    "find_section_markers total_marker_page ''total_withdraw'' = Some 12"
    "find_section_markers total_marker_page ''total_deposit'' = None"
    using total_page(3) by (simp_all add: marker_keys_def)
  then show ?thesis
    by (simp add: deposits_span_def Let_def total_page m_end_def)
qed

subsection \<open>The other documents\<close>

lemma bad_period:
  "extract_metadata 2025 [bad_period_page] = Inr (Some 2025, None)"
  "extract_statement_period [bad_period_page] (Some 2025) = Inl ValueError"
  by code_simp+



lemma boilerplate_facts:
  "any_pattern BOILERPLATE_INDICATORS boilerplate_page = True"
  "any_pattern TRANSACTION_INDICATORS boilerplate_page = True"
  "length (re_finditer False DATE_AMOUNT_PATTERN boilerplate_page) = 3"
  "length (strip boilerplate_page) = 123"
  "length (strip short_page) = 23"
  "any_pattern TRANSACTION_INDICATORS short_page = True"
  by code_simp+

lemma block_lines:
  "split_on newline withdrawals_block =
     [''DATE DESCRIPTION AMOUNT'', ''03/15 ACME CORP PAYMENT  123.45'', []]"
  by code_simp

lemma block_skip:
  "skipped_line ''DATE DESCRIPTION AMOUNT'' = True"
  "skipped_line ''03/15 ACME CORP PAYMENT  123.45'' = False"
  "skipped_line [] = False"
  by code_simp+

lemma block_match:
  "re_match False LINE_PATTERN (strip ''03/15 ACME CORP PAYMENT  123.45'') =
     Some (0, 31, [(3, ''123.45''), (2, ''ACME CORP PAYMENT''), (1, ''03/15'')])"
  "re_match False LINE_PATTERN (strip []) = None"
  by code_simp+

lemma block_fields:
  "split_on (CHR ''/'') ''03/15'' = [''03'', ''15'']"
  "py_int ''03'' = Inr 3"
  "py_int ''15'' = Inr 15"
  "parse_amount ''123.45'' = Inr (Finite False 12345 (- 2))"
  "strip ''ACME CORP PAYMENT'' = ''ACME CORP PAYMENT''"
  by code_simp+

lemma amount_examples:
  "parse_amount ''-5'' = Inr (Finite True 5 0)"
  "signless_two_decimals (strip (remove_char (CHR '','') ''-5'')) = False"
  "signless_two_decimals (strip (remove_char (CHR '','') '' 1,234.56 '')) = True"
  "digits_val 0 (filter is_digit '' 1,234.56 '') = 123456"
  by code_simp+

subsection \<open>A failing date between two good lines\<close>

lemma rows_lines:
  "split_on newline rows_text =
     [''03/14 ACH CORP DEBIT  1,000.00'', ''13/45 NO SUCH DAY  1.00'',
      ''03/15 ACME CORP PAYMENT  123.45'']"
  by code_simp

lemma rows_records:
  "map (line_records 2025 WITHDRAWAL) (split_on newline rows_text) =
     [[\<lparr>date = \<lparr>year = 2025, month = 3, day = 14\<rparr>, description = ''ACH CORP DEBIT'',
        amount = Finite False 100000 (- 2), transaction_type = WITHDRAWAL, check_number = None\<rparr>],
      [],
      [\<lparr>date = \<lparr>year = 2025, month = 3, day = 15\<rparr>, description = ''ACME CORP PAYMENT'',
        amount = Finite False 12345 (- 2), transaction_type = WITHDRAWAL, check_number = None\<rparr>]]"
  by code_simp

lemma rows_good:
  "skipped_line ''03/14 ACH CORP DEBIT  1,000.00'' = False"
  "re_match False LINE_PATTERN (strip ''03/14 ACH CORP DEBIT  1,000.00'') =
     Some (0, 30, [(3, ''1,000.00''), (2, ''ACH CORP DEBIT''), (1, ''03/14'')])"
  "strip ''ACH CORP DEBIT'' = ''ACH CORP DEBIT''"
  "parse_date ''03/14'' 2025 = Inr \<lparr>year = 2025, month = 3, day = 14\<rparr>"
  "parse_amount ''1,000.00'' = Inr (Finite False 100000 (- 2))"
  by code_simp+

lemma rows_bad:
  "re_match False LINE_PATTERN (strip ''13/45 NO SUCH DAY  1.00'') =
     Some (0, 23, [(3, ''1.00''), (2, ''NO SUCH DAY''), (1, ''13/45'')])"
  "parse_date ''13/45'' 2025 = Inl ValueError"
  by code_simp+

lemma checks_found:
  "check_matches checks_page =
     [(0, 18, [(3, ''250.00''), (2, ''1042''), (1, ''03/02'')]),
      (19, 35, [(3, ''10.00''), (2, ''1043''), (1, ''13/45'')]),
      (36, 55, [(3, ''1,250.00''), (2, ''1044''), (1, ''03/04'')])]"
  by code_simp

lemma checks_records:
  "map (check_records 2025) (check_matches checks_page) =
     [[\<lparr>date = \<lparr>year = 2025, month = 3, day = 2\<rparr>, description = ''Check #1042'',
        amount = Finite False 25000 (- 2), transaction_type = CHECK, check_number = Some 1042\<rparr>],
      [],
      [\<lparr>date = \<lparr>year = 2025, month = 3, day = 4\<rparr>, description = ''Check #1044'',
        amount = Finite False 125000 (- 2), transaction_type = CHECK, check_number = Some 1044\<rparr>]]"
  by code_simp

lemma checks_good:
  "parse_date ''03/02'' 2025 = Inr \<lparr>year = 2025, month = 3, day = 2\<rparr>"
  "parse_amount ''250.00'' = Inr (Finite False 25000 (- 2))"
  "py_int ''1042'' = Inr 1042"
  by code_simp+


section \<open>The claims\<close>

subsection \<open>The order of the transactions of a statement\<close>

text \<open>
  Claim C1, as stated: the transactions are sorted by date, and on equal dates by the
  position of the category in the declaration of the enum (CHECK, WITHDRAWAL, DEPOSIT).
  It fails on the example page: its deposit of 15 March comes before its withdrawal of
  15 March.
\<close>

theorem declared_order_counterexample:
  "parse 2025 (Some [example_page]) = Inr example_statement \<and>
   transactions example_statement =
     [check_1042, zelle DEPOSIT, zelle WITHDRAWAL, wire DEPOSIT, wire WITHDRAWAL] \<and>
   date (zelle DEPOSIT) = date (zelle WITHDRAWAL) \<and>
   \<not> sorted (map declared_key (transactions example_statement))"
  using ex_parse ex_not_declared by (simp add: example_statement_def zelle_def)

text \<open>
  Claim C1, amended: for every parsed statement the transactions are sorted,
  non-decreasing, by the pair of the date and the category's value as a string, so that on
  equal dates the order is that of the strings: check, deposit, withdrawal.
\<close>

theorem transactions_sorted_by_date_and_value:
  "parse today pdf = Inr st \<Longrightarrow>
     sorted (map sort_key_of (transactions st)) \<and>
     type_value CHECK < type_value DEPOSIT \<and> type_value DEPOSIT < type_value WITHDRAWAL"
  using parse_transactions [of today pdf st] by (auto simp: sorted_sort_key)

theorem transactions_sorted_by_date_and_value_witness:
  "parse 2025 (Some [example_page]) = Inr example_statement \<and>
   sorted (map sort_key_of (transactions example_statement))"
  using transactions_sorted_by_date_and_value [OF ex_parse] ex_parse by simp

subsection \<open>The statement period on the first page\<close>

text \<open>
  Claim C2: metadata extraction never raises, and in particular period extraction does
  not abort the parse when the matched month and day are out of range. The year and the
  account number are found here, but the period is built with no \<open>try\<close> around it: on a
  first page that reads "previous balance as of 02/30/2025" the \<open>ValueError\<close> of the date
  leaves \<open>parse\<close>.
\<close>

theorem period_out_of_range_raises:
  "extract_metadata 2025 [bad_period_page] = Inr (Some 2025, None) \<and>
   extract_statement_period [bad_period_page] (Some 2025) = Inl ValueError \<and>
   parse 2025 (Some [bad_period_page]) = Inl ValueError"
  by (simp add: parse_def bad_period)

subsection \<open>When extraction fails\<close>




subsection \<open>parse\_amount\<close>

text \<open>
  Claim C4, as stated: once the commas and the surrounding whitespace are gone,
  \<open>parse_amount\<close> fails if and only if what remains is not a signless decimal with exactly
  two fractional digits. It fails at \<open>-5\<close>, which is no such decimal and is converted all
  the same: \<open>Decimal\<close> accepts signs, exponents, any number of fractional digits and the
  special values.
\<close>

theorem parse_amount_counterexample:
  "\<not> signless_two_decimals (strip (remove_char (CHR '','') ''-5'')) \<and>
   parse_amount ''-5'' = Inr (Finite True 5 0)"
  using amount_examples by simp

text \<open>
  Claim C4, amended: \<open>parse_amount\<close> drops the commas and the surrounding whitespace; if
  what remains is a signless decimal with exactly two fractional digits, it returns that
  exact value, the digits read as a whole number of hundredths; and when it fails, the
  error is \<open>InvalidOperation\<close> and the remainder is not such a decimal.
\<close>

theorem parse_amount_two_decimals:
  "(signless_two_decimals (strip (remove_char (CHR '','') s)) \<longrightarrow>
      parse_amount s = Inr (Finite False (digits_val 0 (filter is_digit s)) (- 2))) \<and>
   (parse_amount s = Inl e \<longrightarrow>
      e = InvalidOperation \<and> \<not> signless_two_decimals (strip (remove_char (CHR '','') s)))"
proof -
  have a: "parse_amount s = Inr (Finite False (digits_val 0 (filter is_digit s)) (- 2))"
    if "signless_two_decimals (strip (remove_char (CHR '','') s))"
  proof -
    from two_decimals_shape [OF that] obtain ip fp where
      r: "strip (remove_char (CHR '','') s) = ip @ CHR ''.'' # fp" and
      d: "list_all is_digit ip" "list_all is_digit fp" "length fp = 2"
      by blast
    have "filter is_digit s = filter is_digit (ip @ CHR ''.'' # fp)"
      using r filter_strip_digits filter_remove_comma by metis
    also have "\<dots> = ip @ fp"
      using d by (auto simp: list_all_iff is_digit_def filter_id_conv)
    finally show ?thesis
      using Decimal_two_decimals [OF d] r by (simp add: parse_amount_def)
  qed
  show ?thesis using a parse_amount_error by force
qed

theorem parse_amount_two_decimals_witness:
  "signless_two_decimals (strip (remove_char (CHR '','') '' 1,234.56 '')) \<and>
   parse_amount '' 1,234.56 '' = Inr (Finite False 123456 (- 2))"
  using parse_amount_two_decimals [of "'' 1,234.56 ''"] amount_examples by simp

subsection \<open>The keyword vote on a continuation page\<close>

text \<open>
  Claim C5, as stated: on a continuation page with a table header and no section-header
  markers, a window with only withdrawal keywords vetoes the deposits span. It fails on a
  page that also carries a "Total other withdrawals" line: there the deposits extractor
  takes the table after that line without looking at the keywords, and the Zelle row
  becomes a deposit.
\<close>

theorem keyword_vote_counterexample:
  "is_continuation total_marker_page \<and>
   re_search True TABLE_HEADER total_marker_page = Some (41, 64, []) \<and>
   find_section_markers total_marker_page ''withdraw_header'' = None \<and>
   find_section_markers total_marker_page ''withdraw_table'' = None \<and>
   find_section_markers total_marker_page ''deposit_header'' = None \<and>
   find_section_markers total_marker_page ''deposit_table'' = None \<and>
   any_keyword withdrawal_indicators (window total_marker_page (41, 64, [])) \<and>
   \<not> any_keyword deposit_indicators (window total_marker_page (41, 64, [])) \<and>
   deposits_span total_marker_page = Some (64, 91) \<and>
   extract_deposits_from_page total_marker_page 2025 =
     Inr [\<lparr>date = \<lparr>year = 2025, month = 3, day = 15\<rparr>, description = ''ZELLE PAYMENT'',
           amount = Finite False 1000 (- 2), transaction_type = DEPOSIT, check_number = None\<rparr>]"
proof -
  have "find_section_markers total_marker_page ''withdraw_header'' = None"
    "find_section_markers total_marker_page ''withdraw_table'' = None"
    "find_section_markers total_marker_page ''deposit_header'' = None"
    "find_section_markers total_marker_page ''deposit_table'' = None"
    using total_page(3) by (simp_all add: marker_keys_def)
  then show ?thesis
    by (simp add: total_page total_page_dspan extract_deposits_from_page_def)
qed

text \<open>
  Claim C5, amended: on a continuation page with a table header, no section-header
  markers and no "Total other withdrawals" line, a window with deposit keywords only
  starts the deposits span at the end of the table header and leaves no withdrawals span;
  a window with withdrawal keywords only starts the withdrawals span there and leaves no
  deposits span; a window with neither leaves no span for either category.
\<close>

theorem continuation_keyword_vote:
  assumes "is_continuation text"
    and "re_search True TABLE_HEADER text = Some th"
    and "find_section_markers text ''withdraw_header'' = None"
    and "find_section_markers text ''withdraw_table'' = None"
    and "find_section_markers text ''deposit_header'' = None"
    and "find_section_markers text ''deposit_table'' = None"
    and "find_section_markers text ''total_withdraw'' = None"
  shows "(any_keyword deposit_indicators (window text th) \<and>
          \<not> any_keyword withdrawal_indicators (window text th) \<longrightarrow>
            (\<exists>e. deposits_span text = Some (m_end th, e)) \<and> withdrawals_span text = None) \<and>
         (any_keyword withdrawal_indicators (window text th) \<and>
          \<not> any_keyword deposit_indicators (window text th) \<longrightarrow>
            deposits_span text = None \<and> (\<exists>e. withdrawals_span text = Some (m_end th, e))) \<and>
         (\<not> any_keyword withdrawal_indicators (window text th) \<and>
          \<not> any_keyword deposit_indicators (window text th) \<longrightarrow>
            deposits_span text = None \<and> withdrawals_span text = None)"
  using assms by (simp add: withdrawals_span_def deposits_span_def Let_def)

theorem continuation_keyword_vote_witness:
  "(\<exists>e. deposits_span deposits_only_page = Some (35, e)) \<and>
   withdrawals_span deposits_only_page = None \<and>
   deposits_span withdrawals_only_page = None \<and>
   (\<exists>e. withdrawals_span withdrawals_only_page = Some (35, e)) \<and>
   deposits_span no_keyword_page = None \<and>
   withdrawals_span no_keyword_page = None"
proof -
  have d: "find_section_markers deposits_only_page ''withdraw_header'' = None"
    "find_section_markers deposits_only_page ''withdraw_table'' = None"
    "find_section_markers deposits_only_page ''deposit_header'' = None"
    "find_section_markers deposits_only_page ''deposit_table'' = None"
    "find_section_markers deposits_only_page ''total_withdraw'' = None"
    using dep_page(3) by (simp_all add: marker_keys_def)
  have w: "find_section_markers withdrawals_only_page ''withdraw_header'' = None"
    "find_section_markers withdrawals_only_page ''withdraw_table'' = None"
    "find_section_markers withdrawals_only_page ''deposit_header'' = None"
    "find_section_markers withdrawals_only_page ''deposit_table'' = None"
    "find_section_markers withdrawals_only_page ''total_withdraw'' = None"
    using wd_page(3) by (simp_all add: marker_keys_def)
  have n: "find_section_markers no_keyword_page ''withdraw_header'' = None"
    "find_section_markers no_keyword_page ''withdraw_table'' = None"
    "find_section_markers no_keyword_page ''deposit_header'' = None"
    "find_section_markers no_keyword_page ''deposit_table'' = None"
    "find_section_markers no_keyword_page ''total_withdraw'' = None"
    using no_page(3) by (simp_all add: marker_keys_def)
  have "is_continuation deposits_only_page" "is_continuation withdrawals_only_page"
    "is_continuation no_keyword_page"
    by (simp_all add: dep_page wd_page no_page)
  note c = this
  from continuation_keyword_vote [OF c(1) dep_page(2) d]
  have 1: "(\<exists>e. deposits_span deposits_only_page = Some (35, e)) \<and>
      withdrawals_span deposits_only_page = None"
    by (simp add: dep_page m_end_def)
  from continuation_keyword_vote [OF c(2) wd_page(2) w]
  have 2: "deposits_span withdrawals_only_page = None \<and>
      (\<exists>e. withdrawals_span withdrawals_only_page = Some (35, e))"
    by (simp add: wd_page m_end_def)
  from continuation_keyword_vote [OF c(3) no_page(2) n]
  have 3: "deposits_span no_keyword_page = None \<and> withdrawals_span no_keyword_page = None"
    by (simp add: no_page)
  from 1 2 3 show ?thesis by simp
qed

subsection \<open>The line parser and the conversion failures\<close>

text \<open>
  Claim C6, as stated: for every text span, category and year the line parser returns and
  raises nothing. It fails for a year that does not fit a C \<open>int\<close>: there \<open>date(year, month, day)\<close>
  raises \<open>OverflowError\<close>, which is not a \<open>ValueError\<close>, the \<open>except\<close> clause does not name
  it, and it leaves the parser at the first line that matches the pattern.
\<close>

theorem year_overflow_counterexample:
  "split_on newline ''03/15 ACME CORP PAYMENT  123.45'' = [''03/15 ACME CORP PAYMENT  123.45''] \<and>
   parse_date ''03/15'' 2147483648 = Inl OverflowError \<and>
   \<not> caught OverflowError \<and>
   extract_transactions_from_text ''03/15 ACME CORP PAYMENT  123.45'' 2147483648 WITHDRAWAL =
     Inl OverflowError"
  by code_simp

text \<open>
  Claim C6, amended: for every text span, category and year that fits a C \<open>int\<close> (every year
  of a calendar date does) the line parser returns, and what it returns is, line after
  line in the order of the span, what each line owes by itself; the check extractor
  returns likewise, match after match of the check pattern in the checks block. A matched
  line whose date or amount conversion fails owes nothing; a line that is not filtered,
  matches, has a description of three characters or more and whose date and amount are
  converted and validated owes exactly the record of these values. The same holds of a
  match of the check pattern, whose check number is converted too. So a conversion
  failure costs its own line and no other.
\<close>

theorem conversion_failure_skips_one_line:
  assumes "c_int yr"
  shows
    "extract_transactions_from_text span yr ty =
       Inr (concat (map (line_records yr ty) (split_on newline span))) \<and>
     extract_checks_from_page page yr =
       Inr (concat (map (check_records yr) (check_matches page))) \<and>
     (re_match False LINE_PATTERN (strip line) = Some m \<and>
      (parse_date (group m 1) yr = Inl e \<or> parse_amount (group m 3) = Inl e) \<longrightarrow>
        line_records yr ty line = []) \<and>
     (\<not> skipped_line line \<and> re_match False LINE_PATTERN (strip line) = Some m \<and>
      3 \<le> length (strip (group m 2)) \<and>
      parse_date (group m 1) yr = Inr d \<and> parse_amount (group m 3) = Inr a \<and> amount_ge0 a \<longrightarrow>
        line_records yr ty line =
          [\<lparr>date = d, description = strip (group m 2), amount = a, transaction_type = ty,
            check_number = None\<rparr>]) \<and>
     (parse_date (group cm 1) yr = Inl e \<or> parse_amount (group cm 3) = Inl e \<or>
      py_int (group cm 2) = Inl e \<longrightarrow>
        check_records yr cm = []) \<and>
     (parse_date (group cm 1) yr = Inr d \<and> parse_amount (group cm 3) = Inr a \<and>
      py_int (group cm 2) = Inr n \<and> amount_ge0 a \<longrightarrow>
        check_records yr cm =
          [\<lparr>date = d, description = ''Check #'' @ group cm 2, amount = a,
            transaction_type = CHECK, check_number = Some n\<rparr>])"
proof (intro conjI impI)
  show "extract_transactions_from_text span yr ty =
      Inr (concat (map (line_records yr ty) (split_on newline span)))"
    using assms by (rule extract_text_exact)
  show "extract_checks_from_page page yr =
      Inr (concat (map (check_records yr) (check_matches page)))"
    using assms by (rule extract_checks_exact)
next
  assume "re_match False LINE_PATTERN (strip line) = Some m \<and>
    (parse_date (group m 1) yr = Inl e \<or> parse_amount (group m 3) = Inl e)"
  then show "line_records yr ty line = []"
    by (auto simp: line_records_def transaction_of_match_def split: sum.splits)
next
  assume "\<not> skipped_line line \<and> re_match False LINE_PATTERN (strip line) = Some m \<and>
    3 \<le> length (strip (group m 2)) \<and>
    parse_date (group m 1) yr = Inr d \<and> parse_amount (group m 3) = Inr a \<and> amount_ge0 a"
  then show "line_records yr ty line =
      [\<lparr>date = d, description = strip (group m 2), amount = a, transaction_type = ty,
        check_number = None\<rparr>]"
    by (simp add: line_records_def transaction_of_match_def Transaction_def)
next
  assume "parse_date (group cm 1) yr = Inl e \<or> parse_amount (group cm 3) = Inl e \<or>
    py_int (group cm 2) = Inl e"
  then show "check_records yr cm = []"
    by (auto simp: check_records_def check_of_match_def Let_def split: sum.splits)
next
  assume "parse_date (group cm 1) yr = Inr d \<and> parse_amount (group cm 3) = Inr a \<and>
    py_int (group cm 2) = Inr n \<and> amount_ge0 a"
  then show "check_records yr cm =
      [\<lparr>date = d, description = ''Check #'' @ group cm 2, amount = a,
        transaction_type = CHECK, check_number = Some n\<rparr>]"
    by (simp add: check_records_def check_of_match_def Let_def Transaction_def)
qed

text \<open>
  An instance: between two good lines, a line of month 13 and day 45 is skipped and the
  two others give their records, in a span of rows and in a checks block.
\<close>

theorem conversion_failure_skips_one_line_witness:
  "c_int 2025 \<and>
   split_on newline rows_text =
     [''03/14 ACH CORP DEBIT  1,000.00'', ''13/45 NO SUCH DAY  1.00'',
      ''03/15 ACME CORP PAYMENT  123.45''] \<and>
   check_matches checks_page =
     [(0, 18, [(3, ''250.00''), (2, ''1042''), (1, ''03/02'')]),
      (19, 35, [(3, ''10.00''), (2, ''1043''), (1, ''13/45'')]),
      (36, 55, [(3, ''1,250.00''), (2, ''1044''), (1, ''03/04'')])] \<and>
   extract_transactions_from_text rows_text 2025 WITHDRAWAL =
     Inr [\<lparr>date = \<lparr>year = 2025, month = 3, day = 14\<rparr>, description = ''ACH CORP DEBIT'',
           amount = Finite False 100000 (- 2), transaction_type = WITHDRAWAL, check_number = None\<rparr>,
          \<lparr>date = \<lparr>year = 2025, month = 3, day = 15\<rparr>, description = ''ACME CORP PAYMENT'',
           amount = Finite False 12345 (- 2), transaction_type = WITHDRAWAL, check_number = None\<rparr>] \<and>
   extract_checks_from_page checks_page 2025 =
     Inr [\<lparr>date = \<lparr>year = 2025, month = 3, day = 2\<rparr>, description = ''Check #1042'',
           amount = Finite False 25000 (- 2), transaction_type = CHECK, check_number = Some 1042\<rparr>,
          \<lparr>date = \<lparr>year = 2025, month = 3, day = 4\<rparr>, description = ''Check #1044'',
           amount = Finite False 125000 (- 2), transaction_type = CHECK, check_number = Some 1044\<rparr>] \<and>
   line_records 2025 WITHDRAWAL ''13/45 NO SUCH DAY  1.00'' = [] \<and>
   line_records 2025 WITHDRAWAL ''03/14 ACH CORP DEBIT  1,000.00'' =
     [\<lparr>date = \<lparr>year = 2025, month = 3, day = 14\<rparr>, description = ''ACH CORP DEBIT'',
       amount = Finite False 100000 (- 2), transaction_type = WITHDRAWAL, check_number = None\<rparr>] \<and>
   check_records 2025 (19, 35, [(3, ''10.00''), (2, ''1043''), (1, ''13/45'')]) = [] \<and>
   check_records 2025 (0, 18, [(3, ''250.00''), (2, ''1042''), (1, ''03/02'')]) =
     [\<lparr>date = \<lparr>year = 2025, month = 3, day = 2\<rparr>, description = ''Check #1042'',
       amount = Finite False 25000 (- 2), transaction_type = CHECK, check_number = Some 1042\<rparr>]"
proof -
  have y: "c_int 2025"
    by (simp add: c_int_def)
  note bad = conversion_failure_skips_one_line [OF y, where span = rows_text and ty = WITHDRAWAL
      and page = checks_page and line = "''13/45 NO SUCH DAY  1.00''"
      and m = "(0, 23, [(3, ''1.00''), (2, ''NO SUCH DAY''), (1, ''13/45'')])"
      and e = ValueError and cm = "(19, 35, [(3, ''10.00''), (2, ''1043''), (1, ''13/45'')])"]
  note good = conversion_failure_skips_one_line [OF y, where ty = WITHDRAWAL
      and line = "''03/14 ACH CORP DEBIT  1,000.00''"
      and m = "(0, 30, [(3, ''1,000.00''), (2, ''ACH CORP DEBIT''), (1, ''03/14'')])"
      and d = "\<lparr>year = 2025, month = 3, day = 14\<rparr>" and a = "Finite False 100000 (- 2)"]
  note good_check = conversion_failure_skips_one_line [OF y,
      where cm = "(0, 18, [(3, ''250.00''), (2, ''1042''), (1, ''03/02'')])"
      and d = "\<lparr>year = 2025, month = 3, day = 2\<rparr>" and a = "Finite False 25000 (- 2)"
      and n = 1042]
  from bad have rows: "extract_transactions_from_text rows_text 2025 WITHDRAWAL =
      Inr (concat (map (line_records 2025 WITHDRAWAL) (split_on newline rows_text)))"
    and checks: "extract_checks_from_page checks_page 2025 =
      Inr (concat (map (check_records 2025) (check_matches checks_page)))"
    by simp_all
  from bad have b1: "line_records 2025 WITHDRAWAL ''13/45 NO SUCH DAY  1.00'' = []"
    by (simp add: rows_bad group_def)
  from bad have b2: "check_records 2025 (19, 35, [(3, ''10.00''), (2, ''1043''), (1, ''13/45'')]) = []"
    by (simp add: rows_bad group_def)
  from good have g1: "line_records 2025 WITHDRAWAL ''03/14 ACH CORP DEBIT  1,000.00'' =
     [\<lparr>date = \<lparr>year = 2025, month = 3, day = 14\<rparr>, description = ''ACH CORP DEBIT'',
       amount = Finite False 100000 (- 2), transaction_type = WITHDRAWAL, check_number = None\<rparr>]"
    by (simp add: rows_good group_def)
  from good_check have g2: "check_records 2025 (0, 18, [(3, ''250.00''), (2, ''1042''), (1, ''03/02'')]) =
     [\<lparr>date = \<lparr>year = 2025, month = 3, day = 2\<rparr>, description = ''Check #1042'',
       amount = Finite False 25000 (- 2), transaction_type = CHECK, check_number = Some 1042\<rparr>]"
    by (simp add: checks_good group_def)
  from rows checks have
    "extract_transactions_from_text rows_text 2025 WITHDRAWAL =
       Inr [\<lparr>date = \<lparr>year = 2025, month = 3, day = 14\<rparr>, description = ''ACH CORP DEBIT'',
             amount = Finite False 100000 (- 2), transaction_type = WITHDRAWAL, check_number = None\<rparr>,
            \<lparr>date = \<lparr>year = 2025, month = 3, day = 15\<rparr>, description = ''ACME CORP PAYMENT'',
             amount = Finite False 12345 (- 2), transaction_type = WITHDRAWAL, check_number = None\<rparr>]"
    "extract_checks_from_page checks_page 2025 =
       Inr [\<lparr>date = \<lparr>year = 2025, month = 3, day = 2\<rparr>, description = ''Check #1042'',
             amount = Finite False 25000 (- 2), transaction_type = CHECK, check_number = Some 1042\<rparr>,
            \<lparr>date = \<lparr>year = 2025, month = 3, day = 4\<rparr>, description = ''Check #1044'',
             amount = Finite False 125000 (- 2), transaction_type = CHECK, check_number = Some 1044\<rparr>]"
    by (simp_all add: rows_records checks_records)
  with y b1 b2 g1 g2 rows_lines checks_found show ?thesis
    by simp
qed

subsection \<open>The page classifier\<close>

text \<open>
  Claim C7: a page on which one of the boilerplate patterns matches (case-insensitively)
  is classified non-transaction whatever else it holds, transaction markers and rows of
  dates and amounts included; and so is a page whose trimmed text is shorter than 100
  characters.
\<close>

theorem boilerplate_and_short_pages:
  "(any_pattern BOILERPLATE_INDICATORS text \<longrightarrow> is_transaction_page text = False) \<and>
   (length (strip text) < 100 \<longrightarrow> is_transaction_page text = False)"
  by (simp add: is_transaction_page_def)

text \<open>
  An instance: a page that opens with "Billing Rights Summary" and goes on with a checks
  header, a table header and three rows; and a page that is a table header alone.
\<close>

theorem boilerplate_and_short_pages_witness:
  "any_pattern BOILERPLATE_INDICATORS boilerplate_page \<and>
   any_pattern TRANSACTION_INDICATORS boilerplate_page \<and>
   length (re_finditer False DATE_AMOUNT_PATTERN boilerplate_page) = 3 \<and>
   length (strip boilerplate_page) = 123 \<and>
   is_transaction_page boilerplate_page = False \<and>
   any_pattern TRANSACTION_INDICATORS short_page \<and>
   length (strip short_page) = 23 \<and>
   is_transaction_page short_page = False"
  using boilerplate_and_short_pages [of boilerplate_page]
    boilerplate_and_short_pages [of short_page] boilerplate_facts
  by simp

subsection \<open>The synthetic withdrawals block\<close>

text \<open>
  Claim C8, as stated: for every year the block of a table header and the row
  "03/15 ACME CORP PAYMENT  123.45" yields one withdrawal dated 15 March of that year.
  The year is an \<open>int\<close>, and a date has a year from 1 to 9999: with the year 0 (which the
  metadata "For 01/01/0000" produces) the date cannot be built and the row is skipped.
\<close>

theorem withdrawals_block_counterexample:
  "extract_transactions_from_text withdrawals_block 0 WITHDRAWAL = Inr []"
  by code_simp

text \<open>
  Claim C8, amended: for every year from 1 to 9999 the block yields exactly one
  transaction, dated 15 March of that year, with the description "ACME CORP PAYMENT", the
  amount 123.45 and the category WITHDRAWAL.
\<close>

theorem withdrawals_block_round_trip:
  "1 \<le> yr \<and> yr \<le> 9999 \<Longrightarrow>
   extract_transactions_from_text withdrawals_block yr WITHDRAWAL =
     Inr [\<lparr>date = \<lparr>year = yr, month = 3, day = 15\<rparr>, description = ''ACME CORP PAYMENT'',
           amount = Finite False 12345 (- 2), transaction_type = WITHDRAWAL,
           check_number = None\<rparr>]"
  by (simp add: extract_transactions_from_text_def block_lines block_skip block_match group_def
        block_fields transaction_of_match_def parse_date_def make_date_def c_int_def
        days_in_month_def Transaction_def)

theorem withdrawals_block_round_trip_witness:
  "(1::int) \<le> 2025 \<and> (2025::int) \<le> 9999 \<and>
   extract_transactions_from_text withdrawals_block 2025 WITHDRAWAL =
     Inr [\<lparr>date = \<lparr>year = 2025, month = 3, day = 15\<rparr>, description = ''ACME CORP PAYMENT'',
           amount = Finite False 12345 (- 2), transaction_type = WITHDRAWAL,
           check_number = None\<rparr>]"
  using withdrawals_block_round_trip [of 2025] by simp

subsection \<open>Check numbers and amounts\<close>

text \<open>
  Claim C9: every record the check extractor creates is a CHECK with a check number;
  every record the withdrawals and deposits extractors create has their category and no
  check number; so in every parsed statement a transaction has a check number exactly
  when it is a CHECK; and every amount produced is at least 0.
\<close>

theorem check_number_iff_check:
  "(extract_checks_from_page text yr = Inr cs \<longrightarrow>
      list_all (\<lambda>t. transaction_type t = CHECK \<and> check_number t \<noteq> None \<and>
                    amount_ge0 (amount t)) cs) \<and>
   (extract_withdrawals_from_page text yr = Inr ws \<longrightarrow>
      list_all (\<lambda>t. transaction_type t = WITHDRAWAL \<and> check_number t = None \<and>
                    amount_ge0 (amount t)) ws) \<and>
   (extract_deposits_from_page text yr = Inr ds \<longrightarrow>
      list_all (\<lambda>t. transaction_type t = DEPOSIT \<and> check_number t = None \<and>
                    amount_ge0 (amount t)) ds) \<and>
   (parse today pdf = Inr st \<longrightarrow> list_all well_formed (transactions st))"
proof (intro conjI impI)
  assume "parse today pdf = Inr st"
  then obtain pages y txs where
    l: "pages_loop pages y (classify_pages pages) [] = Inr txs" and
    t: "transactions st = sort_key sort_key_of txs"
    using parse_transactions by blast
  from pages_loop_well_formed [OF l] have "list_all well_formed txs" by simp
  then show "list_all well_formed (transactions st)"
    by (simp add: t list_all_iff)
qed (auto dest: extract_checks_fields extract_withdrawals_fields extract_deposits_fields)

theorem check_number_iff_check_witness:
  "extract_checks_from_page example_page 2025 = Inr [check_1042] \<and>
   transaction_type check_1042 = CHECK \<and> check_number check_1042 = Some 1042 \<and>
   extract_withdrawals_from_page example_page 2025 = Inr [zelle WITHDRAWAL, wire WITHDRAWAL] \<and>
   check_number (zelle WITHDRAWAL) = None \<and>
   extract_deposits_from_page example_page 2025 = Inr [zelle DEPOSIT, wire DEPOSIT] \<and>
   check_number (wire DEPOSIT) = None \<and>
   parse 2025 (Some [example_page]) = Inr example_statement \<and>
   list_all well_formed (transactions example_statement)"
  using check_number_iff_check [of example_page 2025 "[check_1042]"
      "[zelle WITHDRAWAL, wire WITHDRAWAL]" "[zelle DEPOSIT, wire DEPOSIT]" 2025
      "Some [example_page]" example_statement]
    ex_checks ex_w ex_d ex_parse
  by (simp add: check_1042_def zelle_def wire_def)

subsection \<open>A continuation page counted twice\<close>

text \<open>
  Claim C10: there is a continuation page with a table header, no section-header or
  total markers, and a keyword window with both a withdrawal keyword and a deposit
  keyword, on which the withdrawals extractor and the deposits extractor select the same
  span, so that each row is emitted twice, once as a WITHDRAWAL and once as a DEPOSIT.
  The example page is one.
\<close>

theorem mixed_page_emitted_twice:
  "is_continuation example_page \<and>
   re_search True TABLE_HEADER example_page = Some (38, 61, []) \<and>
   map (find_section_markers example_page) marker_keys = [None, None, None, None, None, None] \<and>
   any_keyword withdrawal_indicators (window example_page (38, 61, [])) \<and>
   any_keyword deposit_indicators (window example_page (38, 61, [])) \<and>
   withdrawals_span example_page = Some (61, 130) \<and>
   deposits_span example_page = Some (61, 130) \<and>
   extract_withdrawals_from_page example_page 2025 = Inr [zelle WITHDRAWAL, wire WITHDRAWAL] \<and>
   extract_deposits_from_page example_page 2025 = Inr [zelle DEPOSIT, wire DEPOSIT]"
  by (simp add: ex_cont ex_th ex_markers ex_dep ex_wd ex_wspan ex_dspan ex_w ex_d)

end
